theory Spec2Isabelle
  imports Complex_Main "HOL-Library.Sublist"
begin

section \<open>Strings as the services use them\<close>

text \<open>
  A JavaScript string is modelled as a \<^typ>\<open>string\<close>, a list of characters.  The model
  covers the ASCII range: \<open>toLowerCase\<close> maps \<open>A\<close>..\<open>Z\<close> to \<open>a\<close>..\<open>z\<close> character by
  character and leaves every other character alone, and the white space of \<open>trim\<close> and of
  the regular expression class \<open>\s\<close> is tab, line feed, vertical tab, form feed, carriage
  return and space.
\<close>

definition toLowerChar :: "char \<Rightarrow> char" where
  "toLowerChar c =
     (let n = (of_char c :: nat) in if 65 \<le> n \<and> n \<le> 90 then char_of (n + 32) else c)"

definition toLowerCase :: "string \<Rightarrow> string" where
  "toLowerCase s = map toLowerChar s"

text \<open>
  A string of ASCII characters only.  On such strings \<open>toLowerCase\<close> above is the
  platform's \<open>String.prototype.toLowerCase\<close>; outside ASCII the platform folds further
  letters, which the model leaves alone.
\<close>

definition isAscii :: "string \<Rightarrow> bool" where
  "isAscii s = list_all (\<lambda>c. (of_char c :: nat) < 128) s"

text \<open>\<open>hay.includes(needle)\<close>, under the name \<open>includesStr\<close>: \<open>needle\<close> occurs in \<open>hay\<close> as a
  contiguous run.\<close>

definition includesStr :: "string \<Rightarrow> string \<Rightarrow> bool" where
  "includesStr hay needle = sublist needle hay"

text \<open>
  The truth value JavaScript gives an optional string in a condition: \<open>undefined\<close>,
  \<open>null\<close> and the empty string are false, every other string is true.
\<close>

fun truthy :: "string option \<Rightarrow> bool" where
  "truthy None = False"
| "truthy (Some s) = (s \<noteq> [])"

section \<open>The profile and the evolution engine (services/memory.ts)\<close>

record UserProfile =
  userId :: nat
  preferredHeroes :: "string list"
  preferredRoles :: "string list"
  skillLevel :: "string option"
  mmrBracket :: "string option"
  playstyle :: "string option"
  learningGoals :: "string list"
  createdAt :: string
  updatedAt :: string

text \<open>
  \<open>ExtractedPreferences\<close>: every field is optional.  The three scalar field names of the
  source also name profile fields, so they carry the prefix \<open>ex_\<close> here.
\<close>

record ExtractedPreferences =
  heroes :: "string list option"
  roles :: "string list option"
  ex_skillLevel :: "string option"
  ex_playstyle :: "string option"
  ex_learningGoals :: "string list option"

text \<open>
  \<open>Partial<UserProfile>\<close> as the engine fills it: a field is \<open>None\<close> while it has not
  been assigned.  The engine assigns only these five fields.
\<close>

record PartialProfile =
  upd_preferredHeroes :: "string list option"
  upd_preferredRoles :: "string list option"
  upd_skillLevel :: "string option"
  upd_playstyle :: "string option"
  upd_learningGoals :: "string list option"

datatype Action = Add | Replace | Merge

text \<open>The values a \<open>MemoryUpdate\<close> records (\<open>unknown\<close> in the source).\<close>

datatype Value = VNull | VString string | VStrings "string list"

fun valueOf :: "string option \<Rightarrow> Value" where
  "valueOf None = VNull"
| "valueOf (Some s) = VString s"

record MemoryUpdate =
  field :: string
  oldValue :: Value
  newValue :: Value
  action :: Action

record EvolutionResult =
  updated :: PartialProfile
  changes :: "MemoryUpdate list"

definition emptyPartial :: PartialProfile where
  "emptyPartial = \<lparr>upd_preferredHeroes = None, upd_preferredRoles = None,
     upd_skillLevel = None, upd_playstyle = None, upd_learningGoals = None\<rparr>"

text \<open>
  \<open>evolveProfile\<close> runs five blocks in sequence, each of which may assign one field of
  \<open>updated\<close> and push one entry on \<open>changes\<close>.  Each block is a function on the pair.
  In the playstyle block the test \<open>!current.playstyle\<close> holds for \<open>null\<close> and for the empty
  string; the pattern \<open>Some (c # cs)\<close> is its negation.
\<close>

definition evolveHeroes ::
  "UserProfile \<Rightarrow> ExtractedPreferences \<Rightarrow> EvolutionResult \<Rightarrow> EvolutionResult" where
  "evolveHeroes current extracted res =
     (case heroes extracted of
        None \<Rightarrow> res
      | Some hs \<Rightarrow>
          if hs = [] then res
          else
            let newHeroes = filter (\<lambda>h. h \<notin> set (preferredHeroes current)) hs in
            if newHeroes = [] then res
            else
              let mergedHeroes = preferredHeroes current @ newHeroes in
              \<lparr>updated = (updated res)\<lparr>upd_preferredHeroes := Some mergedHeroes\<rparr>,
               changes = changes res @
                 [\<lparr>field = ''preferredHeroes'', oldValue = VStrings (preferredHeroes current),
                   newValue = VStrings mergedHeroes, action = Add\<rparr>]\<rparr>)"

definition evolveRoles ::
  "UserProfile \<Rightarrow> ExtractedPreferences \<Rightarrow> EvolutionResult \<Rightarrow> EvolutionResult" where
  "evolveRoles current extracted res =
     (case roles extracted of
        None \<Rightarrow> res
      | Some rs \<Rightarrow>
          if rs = [] then res
          else
            let newRoles =
              filter (\<lambda>r. toLowerCase r \<notin> set (map toLowerCase (preferredRoles current))) rs in
            if newRoles = [] then res
            else
              let mergedRoles = preferredRoles current @ newRoles in
              \<lparr>updated = (updated res)\<lparr>upd_preferredRoles := Some mergedRoles\<rparr>,
               changes = changes res @
                 [\<lparr>field = ''preferredRoles'', oldValue = VStrings (preferredRoles current),
                   newValue = VStrings mergedRoles, action = Add\<rparr>]\<rparr>)"

definition evolveSkillLevel ::
  "UserProfile \<Rightarrow> ExtractedPreferences \<Rightarrow> EvolutionResult \<Rightarrow> EvolutionResult" where
  "evolveSkillLevel current extracted res =
     (if truthy (ex_skillLevel extracted) then
        if skillLevel current \<noteq> ex_skillLevel extracted then
          \<lparr>updated = (updated res)\<lparr>upd_skillLevel := ex_skillLevel extracted\<rparr>,
           changes = changes res @
             [\<lparr>field = ''skillLevel'', oldValue = valueOf (skillLevel current),
               newValue = valueOf (ex_skillLevel extracted), action = Replace\<rparr>]\<rparr>
        else res
      else res)"

definition evolvePlaystyle ::
  "UserProfile \<Rightarrow> ExtractedPreferences \<Rightarrow> EvolutionResult \<Rightarrow> EvolutionResult" where
  "evolvePlaystyle current extracted res =
     (case ex_playstyle extracted of
        None \<Rightarrow> res
      | Some s \<Rightarrow>
          if s = [] then res
          else
            (case playstyle current of
               Some (c # cs) \<Rightarrow>
                 let old = c # cs in
                 if \<not> includesStr (toLowerCase old) (toLowerCase s) then
                   let merged = old @ '', '' @ s in
                   \<lparr>updated = (updated res)\<lparr>upd_playstyle := Some merged\<rparr>,
                    changes = changes res @
                      [\<lparr>field = ''playstyle'', oldValue = VString old,
                        newValue = VString merged, action = Merge\<rparr>]\<rparr>
                 else res
             | _ \<Rightarrow>
                 \<lparr>updated = (updated res)\<lparr>upd_playstyle := Some s\<rparr>,
                  changes = changes res @
                    [\<lparr>field = ''playstyle'', oldValue = valueOf (playstyle current),
                      newValue = VString s, action = Replace\<rparr>]\<rparr>))"

definition evolveGoals ::
  "UserProfile \<Rightarrow> ExtractedPreferences \<Rightarrow> EvolutionResult \<Rightarrow> EvolutionResult" where
  "evolveGoals current extracted res =
     (case ex_learningGoals extracted of
        None \<Rightarrow> res
      | Some gs \<Rightarrow>
          if gs = [] then res
          else
            let newGoals =
              filter (\<lambda>g. toLowerCase g \<notin> set (map toLowerCase (learningGoals current))) gs in
            if newGoals = [] then res
            else
              let mergedGoals = learningGoals current @ newGoals in
              \<lparr>updated = (updated res)\<lparr>upd_learningGoals := Some mergedGoals\<rparr>,
               changes = changes res @
                 [\<lparr>field = ''learningGoals'', oldValue = VStrings (learningGoals current),
                   newValue = VStrings mergedGoals, action = Add\<rparr>]\<rparr>)"

definition evolveProfile :: "UserProfile \<Rightarrow> ExtractedPreferences \<Rightarrow> EvolutionResult" where
  "evolveProfile current extracted =
     evolveGoals current extracted
       (evolvePlaystyle current extracted
          (evolveSkillLevel current extracted
             (evolveRoles current extracted
                (evolveHeroes current extracted \<lparr>updated = emptyPartial, changes = []\<rparr>))))"

text \<open>
  \<open>updateProfile\<close> (routes/profile.ts) writes every field of the partial record that is
  not \<open>undefined\<close> and, when there is at least one, stamps \<open>updated_at\<close>; \<open>getProfile\<close>
  reads the row back.  The model is the profile read after the write; \<open>now\<close> is the time
  stamp the database produces.
\<close>

definition updateProfile :: "string \<Rightarrow> UserProfile \<Rightarrow> PartialProfile \<Rightarrow> UserProfile" where
  "updateProfile now p u =
     (if u = emptyPartial then p
      else p\<lparr>preferredHeroes :=
                (case upd_preferredHeroes u of None \<Rightarrow> preferredHeroes p | Some hs \<Rightarrow> hs),
              preferredRoles :=
                (case upd_preferredRoles u of None \<Rightarrow> preferredRoles p | Some rs \<Rightarrow> rs),
              skillLevel :=
                (case upd_skillLevel u of None \<Rightarrow> skillLevel p | Some s \<Rightarrow> Some s),
              playstyle :=
                (case upd_playstyle u of None \<Rightarrow> playstyle p | Some s \<Rightarrow> Some s),
              learningGoals :=
                (case upd_learningGoals u of None \<Rightarrow> learningGoals p | Some gs \<Rightarrow> gs),
              updatedAt := now\<rparr>)"

section \<open>The provider gateway (services/llm.ts)\<close>

datatype ChatRole = System | User | Assistant

record ChatMessage =
  role :: ChatRole
  content :: string

datatype Provider = OpenAI | Anthropic | OpenRouter

record LLMConfig =
  provider :: Provider
  apiKey :: string
  model :: "string option"
  baseUrl :: "string option"

record LLMOptions =
  temperature :: "rat option"
  maxTokens :: "nat option"
  opt_systemPrompt :: "string option"

record Usage =
  inputTokens :: nat
  outputTokens :: nat

record LLMResponse =
  resp_content :: string
  resp_usage :: "Usage option"

text \<open>
  The errors the gateway throws.  The source throws \<open>Error\<close> objects told apart by their
  message: \<open>... request failed (status): body\<close> is \<open>TransportFailure\<close>, \<open>Empty response from
  ...\<close> is \<open>EmptyCompletion\<close>, \<open>No LLM API key provided ...\<close> is \<open>NoProviderConfigured\<close>.
  \<open>InvalidBody\<close> is the rejection of \<open>resp.json()\<close> on a body that is not JSON.
\<close>

datatype LLMError =
  TransportFailure nat string
  | EmptyCompletion
  | NoProviderConfigured
  | InvalidBody

fun DEFAULT_MODELS :: "Provider \<Rightarrow> string" where
  "DEFAULT_MODELS OpenAI = ''gpt-4o-mini''"
| "DEFAULT_MODELS Anthropic = ''claude-sonnet-4-20250514''"
| "DEFAULT_MODELS OpenRouter = ''openai/gpt-4o-mini''"

fun DEFAULT_URLS :: "Provider \<Rightarrow> string" where
  "DEFAULT_URLS OpenAI = ''https://api.openai.com/v1''"
| "DEFAULT_URLS Anthropic = ''https://api.anthropic.com/v1''"
| "DEFAULT_URLS OpenRouter = ''https://openrouter.ai/api/v1''"

text \<open>The object the class constructor builds.\<close>

record LLMService =
  config :: LLMConfig
  svc_baseUrl :: string
  svc_model :: string

definition newLLMService :: "LLMConfig \<Rightarrow> LLMService" where
  "newLLMService cfg =
     \<lparr>config = cfg,
      svc_baseUrl = (case baseUrl cfg of None \<Rightarrow> DEFAULT_URLS (provider cfg) | Some u \<Rightarrow> u),
      svc_model = (case model cfg of None \<Rightarrow> DEFAULT_MODELS (provider cfg) | Some m \<Rightarrow> m)\<rparr>"

text \<open>
  The network: a request carries a URL, headers and a body; a response carries the
  \<open>ok\<close> flag, the status, the raw text and the body parsed as the type the source casts
  it to (\<open>None\<close> when the body is not JSON).  \<open>fetch\<close> is a parameter of the two chat
  paths.
\<close>

record 'b Request =
  url :: string
  http_method :: string
  headers :: "(string \<times> string) list"
  body :: 'b

record 'd Response =
  ok :: bool
  status :: nat
  resp_text :: string
  resp_json :: "'d option"

record OpenAIBody =
  oa_model :: string
  oa_messages :: "ChatMessage list"
  oa_temperature :: rat
  oa_max_tokens :: nat

record OpenAIMessage =
  oa_content :: "string option"

record OpenAIChoice =
  oa_message :: "OpenAIMessage option"

record OpenAIUsage =
  prompt_tokens :: "nat option"
  completion_tokens :: "nat option"

record OpenAIData =
  oa_choices :: "OpenAIChoice list option"
  oa_usage :: "OpenAIUsage option"

record AnthropicBody =
  an_model :: string
  an_messages :: "ChatMessage list"
  an_max_tokens :: nat
  an_temperature :: rat
  an_system :: "string option"

record ContentBlock =
  block_type :: string
  block_text :: "string option"

record AnthropicUsage =
  input_tokens :: "nat option"
  output_tokens :: "nat option"

record AnthropicData =
  an_content :: "ContentBlock list option"
  an_usage :: "AnthropicUsage option"

fun orZero :: "nat option \<Rightarrow> nat" where
  "orZero None = 0"
| "orZero (Some n) = n"

subsection \<open>chatOpenAI\<close>

definition openAIRequest ::
  "LLMService \<Rightarrow> ChatMessage list \<Rightarrow> rat \<Rightarrow> nat \<Rightarrow> OpenAIBody Request" where
  "openAIRequest svc messages temp maxTok =
     \<lparr>url = svc_baseUrl svc @ ''/chat/completions'',
      http_method = ''POST'',
      headers =
        [(''content-type'', ''application/json''),
         (''authorization'', ''Bearer '' @ apiKey (config svc))] @
        (if provider (config svc) = OpenRouter
         then [(''HTTP-Referer'', ''http://localhost''), (''X-Title'', ''dota2-interactive-agent'')]
         else []),
      body = \<lparr>oa_model = svc_model svc, oa_messages = messages,
               oa_temperature = temp, oa_max_tokens = maxTok\<rparr>\<rparr>"

text \<open>\<open>data.choices?.[0]?.message?.content ?? ''\<close>\<close>

definition openAIContent :: "OpenAIData \<Rightarrow> string" where
  "openAIContent data =
     (case oa_choices data of
        None \<Rightarrow> []
      | Some [] \<Rightarrow> []
      | Some (c # _) \<Rightarrow>
          (case oa_message c of
             None \<Rightarrow> []
           | Some m \<Rightarrow> (case oa_content m of None \<Rightarrow> [] | Some s \<Rightarrow> s)))"

definition chatOpenAI ::
  "LLMService \<Rightarrow> (OpenAIBody Request \<Rightarrow> OpenAIData Response) \<Rightarrow> ChatMessage list \<Rightarrow> rat \<Rightarrow> nat
     \<Rightarrow> LLMError + LLMResponse" where
  "chatOpenAI svc fetch messages temp maxTok =
     (let resp = fetch (openAIRequest svc messages temp maxTok) in
      if \<not> ok resp then Inl (TransportFailure (status resp) (resp_text resp))
      else
        (case resp_json resp of
           None \<Rightarrow> Inl InvalidBody
         | Some data \<Rightarrow>
             let content = openAIContent data in
             if content = [] then Inl EmptyCompletion
             else
               Inr \<lparr>resp_content = content,
                    resp_usage =
                      (case oa_usage data of
                         None \<Rightarrow> None
                       | Some u \<Rightarrow>
                           Some \<lparr>inputTokens = orZero (prompt_tokens u),
                                 outputTokens = orZero (completion_tokens u)\<rparr>)\<rparr>))"

subsection \<open>chatAnthropic\<close>

text \<open>
  The loop over \<open>messages\<close>: the state is the pair of \<open>systemPrompt\<close> and
  \<open>conversationMessages\<close>.
\<close>

fun splitMessages ::
  "ChatMessage list \<Rightarrow> string option \<times> ChatMessage list \<Rightarrow> string option \<times> ChatMessage list" where
  "splitMessages [] st = st"
| "splitMessages (msg # rest) (systemPrompt, conversationMessages) =
     (if role msg = System
      then splitMessages rest (Some (content msg), conversationMessages)
      else splitMessages rest
             (systemPrompt, conversationMessages @ [\<lparr>role = role msg, content = content msg\<rparr>]))"

definition anthropicBody ::
  "LLMService \<Rightarrow> ChatMessage list \<Rightarrow> rat \<Rightarrow> nat \<Rightarrow> AnthropicBody" where
  "anthropicBody svc messages temp maxTok =
     (case splitMessages messages (None, []) of
        (systemPrompt, conversationMessages) \<Rightarrow>
          \<lparr>an_model = svc_model svc, an_messages = conversationMessages,
           an_max_tokens = maxTok, an_temperature = temp,
           an_system = (if truthy systemPrompt then systemPrompt else None)\<rparr>)"

definition anthropicRequest ::
  "LLMService \<Rightarrow> ChatMessage list \<Rightarrow> rat \<Rightarrow> nat \<Rightarrow> AnthropicBody Request" where
  "anthropicRequest svc messages temp maxTok =
     \<lparr>url = svc_baseUrl svc @ ''/messages'',
      http_method = ''POST'',
      headers =
        [(''content-type'', ''application/json''),
         (''x-api-key'', apiKey (config svc)),
         (''anthropic-version'', ''2023-06-01'')],
      body = anthropicBody svc messages temp maxTok\<rparr>"

text \<open>\<open>data.content?.find((c) => c.type === 'text')?.text ?? ''\<close>\<close>

definition anthropicTextContent :: "AnthropicData \<Rightarrow> string" where
  "anthropicTextContent data =
     (case an_content data of
        None \<Rightarrow> []
      | Some blocks \<Rightarrow>
          (case find (\<lambda>c. block_type c = ''text'') blocks of
             None \<Rightarrow> []
           | Some c \<Rightarrow> (case block_text c of None \<Rightarrow> [] | Some s \<Rightarrow> s)))"

definition chatAnthropic ::
  "LLMService \<Rightarrow> (AnthropicBody Request \<Rightarrow> AnthropicData Response) \<Rightarrow> ChatMessage list \<Rightarrow> rat \<Rightarrow> nat
     \<Rightarrow> LLMError + LLMResponse" where
  "chatAnthropic svc fetch messages temp maxTok =
     (let resp = fetch (anthropicRequest svc messages temp maxTok) in
      if \<not> ok resp then Inl (TransportFailure (status resp) (resp_text resp))
      else
        (case resp_json resp of
           None \<Rightarrow> Inl InvalidBody
         | Some data \<Rightarrow>
             let textContent = anthropicTextContent data in
             if textContent = [] then Inl EmptyCompletion
             else
               Inr \<lparr>resp_content = textContent,
                    resp_usage =
                      (case an_usage data of
                         None \<Rightarrow> None
                       | Some u \<Rightarrow>
                           Some \<lparr>inputTokens = orZero (input_tokens u),
                                 outputTokens = orZero (output_tokens u)\<rparr>)\<rparr>))"

subsection \<open>chat\<close>

text \<open>The defaults of \<open>const { temperature = 0.7, maxTokens = 1024 } = options\<close>.\<close>

definition temperatureOf :: "LLMOptions \<Rightarrow> rat" where
  "temperatureOf options = (case temperature options of None \<Rightarrow> 7 / 10 | Some t \<Rightarrow> t)"

definition maxTokensOf :: "LLMOptions \<Rightarrow> nat" where
  "maxTokensOf options = (case maxTokens options of None \<Rightarrow> 1024 | Some n \<Rightarrow> n)"

definition chat ::
  "LLMService \<Rightarrow> (OpenAIBody Request \<Rightarrow> OpenAIData Response)
     \<Rightarrow> (AnthropicBody Request \<Rightarrow> AnthropicData Response)
     \<Rightarrow> ChatMessage list \<Rightarrow> LLMOptions \<Rightarrow> LLMError + LLMResponse" where
  "chat svc fetchOpenAI fetchAnthropic messages options =
     (if provider (config svc) = Anthropic
      then chatAnthropic svc fetchAnthropic messages (temperatureOf options) (maxTokensOf options)
      else chatOpenAI svc fetchOpenAI messages (temperatureOf options) (maxTokensOf options))"

subsection \<open>createLLMService\<close>

record Env =
  ANTHROPIC_API_KEY :: "string option"
  OPENAI_API_KEY :: "string option"
  OPENROUTER_API_KEY :: "string option"
  LLM_PROVIDER :: "string option"
  LLM_MODEL :: "string option"

text \<open>
  Each \<open>return new LLMService(...)\<close> sits under a test that its key is a non-empty string,
  so \<open>the\<close> below is applied to \<open>Some\<close> only.
\<close>

definition createLLMService :: "Env \<Rightarrow> LLMError + LLMService" where
  "createLLMService env =
     (let preferredProvider = LLM_PROVIDER env in
      if preferredProvider = Some ''anthropic'' \<and> truthy (ANTHROPIC_API_KEY env) then
        Inr (newLLMService \<lparr>provider = Anthropic, apiKey = the (ANTHROPIC_API_KEY env),
                            model = LLM_MODEL env, baseUrl = None\<rparr>)
      else if preferredProvider = Some ''openai'' \<and> truthy (OPENAI_API_KEY env) then
        Inr (newLLMService \<lparr>provider = OpenAI, apiKey = the (OPENAI_API_KEY env),
                            model = LLM_MODEL env, baseUrl = None\<rparr>)
      else if preferredProvider = Some ''openrouter'' \<and> truthy (OPENROUTER_API_KEY env) then
        Inr (newLLMService \<lparr>provider = OpenRouter, apiKey = the (OPENROUTER_API_KEY env),
                            model = LLM_MODEL env, baseUrl = None\<rparr>)
      else if truthy (ANTHROPIC_API_KEY env) then
        Inr (newLLMService \<lparr>provider = Anthropic, apiKey = the (ANTHROPIC_API_KEY env),
                            model = LLM_MODEL env, baseUrl = None\<rparr>)
      else if truthy (OPENAI_API_KEY env) then
        Inr (newLLMService \<lparr>provider = OpenAI, apiKey = the (OPENAI_API_KEY env),
                            model = LLM_MODEL env, baseUrl = None\<rparr>)
      else if truthy (OPENROUTER_API_KEY env) then
        Inr (newLLMService \<lparr>provider = OpenRouter, apiKey = the (OPENROUTER_API_KEY env),
                            model = LLM_MODEL env, baseUrl = None\<rparr>)
      else Inl NoProviderConfigured)"

section \<open>The preference extractor (services/profile.ts)\<close>

definition EXTRACTION_PROMPT :: string where
  \<open>EXTRACTION_PROMPT =
     ''You are analyzing a Dota 2 player's message to extract their preferences and profile information.\<newline>'' @
     ''\<newline>'' @
     ''Extract ONLY information that is CLEARLY and EXPLICITLY stated in the message. Do not assume or infer.\<newline>'' @
     ''\<newline>'' @
     ''Return a JSON object with these optional fields (include only fields that are clearly mentioned):\<newline>'' @
     ''- heroes: array of hero names mentioned positively (e.g., "I play Anti-Mage" or "I love PA")\<newline>'' @
     ''- roles: array of roles mentioned (valid: "carry", "mid", "offlane", "soft support", "hard support")\<newline>'' @
     ''- skillLevel: their rank if mentioned (e.g., "Herald", "Guardian", "Crusader", "Archon", "Legend", "Ancient", "Divine", "Immortal")\<newline>'' @
     ''- playstyle: description of their playstyle if mentioned (e.g., "aggressive", "farming focused", "team fighter")\<newline>'' @
     ''- learningGoals: array of things they want to learn or improve\<newline>'' @
     ''\<newline>'' @
     ''Rules:\<newline>'' @
     ''- Only include fields where information is EXPLICITLY stated\<newline>'' @
     ''- Hero names should be full official names (e.g., "Anti-Mage" not "AM", "Phantom Assassin" not "PA")\<newline>'' @
     ''- Be conservative - when in doubt, don't include it\<newline>'' @
     ''- Return ONLY valid JSON, no explanation\<newline>'' @
     ''\<newline>'' @
     ''User message: ''\<close>

text \<open>
  The value \<open>JSON.parse\<close> returns.  The parser itself belongs to the platform and is a
  parameter of the extractor: it maps a text to \<open>None\<close> when it throws \<open>SyntaxError\<close>.
  An object is the list of its properties; a number carries a rational.
\<close>

datatype Json =
  JNull
  | JBool bool
  | JNum rat
  | JStr string
  | JArr "Json list"
  | JObj "(string \<times> Json) list"

text \<open>
  \<open>parsed.name\<close> on a value that is not \<open>null\<close>: the property of an object, \<open>undefined\<close>
  (\<open>None\<close>) when the object lacks it and on arrays, strings, numbers and booleans, none of
  which has one of the five property names the extractor reads.
\<close>

fun getProp :: "Json \<Rightarrow> string \<Rightarrow> Json option" where
  "getProp (JObj kvs) name = map_of kvs name"
| "getProp _ name = None"

definition isWhiteSpace :: "char \<Rightarrow> bool" where
  "isWhiteSpace c = (let n = (of_char c :: nat) in (9 \<le> n \<and> n \<le> 13) \<or> n = 32)"

definition trim :: "string \<Rightarrow> string" where
  "trim s = rev (dropWhile isWhiteSpace (rev (dropWhile isWhiteSpace s)))"

text \<open>
  The text before and after the first occurrence of \<open>pat\<close> in a string, if there is one.
\<close>

fun splitAtFirst :: "string \<Rightarrow> string \<Rightarrow> (string \<times> string) option" where
  "splitAtFirst pat [] = (if pat = [] then Some ([], []) else None)"
| "splitAtFirst pat (c # cs) =
     (if prefix pat (c # cs) then Some ([], drop (length pat) (c # cs))
      else (case splitAtFirst pat cs of
              None \<Rightarrow> None
            | Some (before, after) \<Rightarrow> Some (c # before, after)))"

text \<open>
  The capture group of the regular expression that looks for a fenced block: three back
  quotes, an optional \<open>json\<close>, white space, then the shortest text up to the next three
  back quotes.  Neither \<open>json\<close> nor white space contains a back quote, so the match starts
  at the first fence and exists exactly when a second fence follows it.
\<close>

definition fence :: string where
  "fence = ''```''"

definition fenceMatch :: "string \<Rightarrow> string option" where
  "fenceMatch str =
     (case splitAtFirst fence str of
        None \<Rightarrow> None
      | Some (_, rest) \<Rightarrow>
          let rest1 = (if prefix ''json'' rest then drop 4 rest else rest);
              rest2 = dropWhile isWhiteSpace rest1
          in (case splitAtFirst fence rest2 of
                None \<Rightarrow> None
              | Some (captured, _) \<Rightarrow> Some captured))"

definition jsonStrOf :: "string \<Rightarrow> string" where
  "jsonStrOf responseContent =
     (let content = trim responseContent in
      case fenceMatch content of None \<Rightarrow> content | Some captured \<Rightarrow> trim captured)"

definition validRoles :: "string list" where
  "validRoles = [''carry'', ''mid'', ''offlane'', ''soft support'', ''hard support'', ''support'']"

fun stringsOf :: "Json list \<Rightarrow> string list" where
  "stringsOf [] = []"
| "stringsOf (JStr s # rest) = s # stringsOf rest"
| "stringsOf (_ # rest) = stringsOf rest"

definition emptyPreferences :: ExtractedPreferences where
  "emptyPreferences = \<lparr>heroes = None, roles = None, ex_skillLevel = None,
     ex_playstyle = None, ex_learningGoals = None\<rparr>"

text \<open>
  What the \<open>try\<close> block can throw: the gateway's error, \<open>SyntaxError\<close> from \<open>JSON.parse\<close>,
  and \<open>TypeError\<close> from reading a property of \<open>null\<close>.
\<close>

datatype ExtractError = ChatFailed LLMError | SyntaxError | TypeError

text \<open>
  The five validation steps on the parsed value, each of which may assign one field of
  \<open>result\<close>.  Reading \<open>parsed.heroes\<close> throws when \<open>parsed\<close> is \<open>null\<close>; on every other value
  all five reads succeed.
\<close>

definition validateHeroes :: "Json \<Rightarrow> ExtractedPreferences \<Rightarrow> ExtractedPreferences" where
  "validateHeroes parsed result =
     (case getProp parsed ''heroes'' of
        Some (JArr (x # xs)) \<Rightarrow> result\<lparr>heroes := Some (stringsOf (x # xs))\<rparr>
      | _ \<Rightarrow> result)"

definition validateRoles :: "Json \<Rightarrow> ExtractedPreferences \<Rightarrow> ExtractedPreferences" where
  "validateRoles parsed result =
     (case getProp parsed ''roles'' of
        Some (JArr (x # xs)) \<Rightarrow>
          result\<lparr>roles :=
            Some (filter (\<lambda>r. toLowerCase r \<in> set validRoles) (stringsOf (x # xs)))\<rparr>
      | _ \<Rightarrow> result)"

definition validateSkillLevel :: "Json \<Rightarrow> ExtractedPreferences \<Rightarrow> ExtractedPreferences" where
  "validateSkillLevel parsed result =
     (case getProp parsed ''skillLevel'' of
        Some (JStr s) \<Rightarrow>
          if trim s \<noteq> [] then result\<lparr>ex_skillLevel := Some (trim s)\<rparr> else result
      | _ \<Rightarrow> result)"

definition validatePlaystyle :: "Json \<Rightarrow> ExtractedPreferences \<Rightarrow> ExtractedPreferences" where
  "validatePlaystyle parsed result =
     (case getProp parsed ''playstyle'' of
        Some (JStr s) \<Rightarrow>
          if trim s \<noteq> [] then result\<lparr>ex_playstyle := Some (trim s)\<rparr> else result
      | _ \<Rightarrow> result)"

definition validateGoals :: "Json \<Rightarrow> ExtractedPreferences \<Rightarrow> ExtractedPreferences" where
  "validateGoals parsed result =
     (case getProp parsed ''learningGoals'' of
        Some (JArr (x # xs)) \<Rightarrow> result\<lparr>ex_learningGoals := Some (stringsOf (x # xs))\<rparr>
      | _ \<Rightarrow> result)"

definition validate :: "Json \<Rightarrow> ExtractError + ExtractedPreferences" where
  "validate parsed =
     (if parsed = JNull then Inl TypeError
      else
        Inr (validateGoals parsed
              (validatePlaystyle parsed
                (validateSkillLevel parsed
                  (validateRoles parsed
                    (validateHeroes parsed emptyPreferences))))))"

text \<open>
  The body of the \<open>try\<close> block.  \<open>llm\<close> is the \<open>chat\<close> method of the service the caller
  passes in, \<open>parse\<close> is \<open>JSON.parse\<close>.  The request is the one \<open>user\<close> message made of
  the prompt and the text, sent with the temperature 0.1 and at most 300 tokens.
\<close>

definition extractionMessages :: "string \<Rightarrow> ChatMessage list" where
  "extractionMessages message = [\<lparr>role = User, content = EXTRACTION_PROMPT @ message\<rparr>]"

definition extractionOptions :: LLMOptions where
  "extractionOptions =
     \<lparr>temperature = Some (1 / 10), maxTokens = Some 300, opt_systemPrompt = None\<rparr>"

definition extractBody ::
  "(string \<Rightarrow> Json option) \<Rightarrow> (ChatMessage list \<Rightarrow> LLMOptions \<Rightarrow> LLMError + LLMResponse)
     \<Rightarrow> string \<Rightarrow> ExtractError + ExtractedPreferences" where
  "extractBody parse llm message =
     (case llm (extractionMessages message) extractionOptions of
        Inl e \<Rightarrow> Inl (ChatFailed e)
      | Inr response \<Rightarrow>
          (case parse (jsonStrOf (resp_content response)) of
             None \<Rightarrow> Inl SyntaxError
           | Some parsed \<Rightarrow> validate parsed))"

text \<open>The \<open>catch\<close> clause turns everything thrown into the empty record.\<close>

definition extractPreferences ::
  "(string \<Rightarrow> Json option) \<Rightarrow> (ChatMessage list \<Rightarrow> LLMOptions \<Rightarrow> LLMError + LLMResponse)
     \<Rightarrow> string \<Rightarrow> ExtractedPreferences" where
  "extractPreferences parse llm message =
     (case extractBody parse llm message of Inl err \<Rightarrow> emptyPreferences | Inr result \<Rightarrow> result)"

fun nonEmptyList :: "string list option \<Rightarrow> bool" where
  "nonEmptyList None = False"
| "nonEmptyList (Some xs) = (xs \<noteq> [])"

definition hasPreferences :: "ExtractedPreferences \<Rightarrow> bool" where
  "hasPreferences prefs =
     (nonEmptyList (heroes prefs) \<or> nonEmptyList (roles prefs) \<or>
      nonEmptyList (ex_learningGoals prefs) \<or>
      truthy (ex_skillLevel prefs) \<or> truthy (ex_playstyle prefs))"

section \<open>Example inputs\<close>

definition exampleProfile :: UserProfile where
  "exampleProfile =
     \<lparr>userId = 1, preferredHeroes = [''Axe''], preferredRoles = [''carry''],
      skillLevel = None, mmrBracket = None, playstyle = Some ''farming focused'',
      learningGoals = [''warding''], createdAt = ''2024-01-01 00:00:00'',
      updatedAt = ''2024-01-01 00:00:00''\<rparr>"

definition exampleExtracted :: ExtractedPreferences where
  "exampleExtracted =
     \<lparr>heroes = Some [''Lina'', ''Axe''], roles = Some [''Carry'', ''mid''],
      ex_skillLevel = Some ''Archon'', ex_playstyle = Some ''aggressive'',
      ex_learningGoals = Some [''last hitting'']\<rparr>"

definition playstyleOnly :: "string \<Rightarrow> ExtractedPreferences" where
  "playstyleOnly s = emptyPreferences\<lparr>ex_playstyle := Some s\<rparr>"

definition exampleService :: "Provider \<Rightarrow> LLMService" where
  "exampleService p =
     newLLMService \<lparr>provider = p, apiKey = ''sk-test'', model = None, baseUrl = None\<rparr>"

text \<open>A successful response of each family whose completion is two spaces and a line feed.\<close>

definition blankOpenAIResponse :: "OpenAIData Response" where
  "blankOpenAIResponse =
     \<lparr>ok = True, status = 200, resp_text = [],
      resp_json = Some
        \<lparr>oa_choices = Some [\<lparr>oa_message = Some \<lparr>oa_content = Some ''  \<newline>''\<rparr>\<rparr>],
         oa_usage = None\<rparr>\<rparr>"

definition blankAnthropicResponse :: "AnthropicData Response" where
  "blankAnthropicResponse =
     \<lparr>ok = True, status = 200, resp_text = [],
      resp_json = Some
        \<lparr>an_content = Some [\<lparr>block_type = ''text'', block_text = Some ''  \<newline>''\<rparr>],
         an_usage = None\<rparr>\<rparr>"

text \<open>A successful response of each family with no completion at all.\<close>

definition emptyOpenAIResponse :: "OpenAIData Response" where
  "emptyOpenAIResponse =
     \<lparr>ok = True, status = 200, resp_text = [],
      resp_json = Some \<lparr>oa_choices = Some [], oa_usage = None\<rparr>\<rparr>"

definition emptyAnthropicResponse :: "AnthropicData Response" where
  "emptyAnthropicResponse =
     \<lparr>ok = True, status = 200, resp_text = [],
      resp_json = Some
        \<lparr>an_content = Some [\<lparr>block_type = ''text'', block_text = Some []\<rparr>],
         an_usage = None\<rparr>\<rparr>"

definition noOptions :: LLMOptions where
  "noOptions = \<lparr>temperature = None, maxTokens = None, opt_systemPrompt = None\<rparr>"

definition onlyOpenRouterEnv :: Env where
  "onlyOpenRouterEnv =
     \<lparr>ANTHROPIC_API_KEY = None, OPENAI_API_KEY = None, OPENROUTER_API_KEY = Some ''or-key'',
      LLM_PROVIDER = None, LLM_MODEL = None\<rparr>"

definition preferOpenAIEnv :: Env where
  "preferOpenAIEnv =
     \<lparr>ANTHROPIC_API_KEY = Some ''an-key'', OPENAI_API_KEY = Some ''oa-key'',
      OPENROUTER_API_KEY = None, LLM_PROVIDER = Some ''openai'', LLM_MODEL = None\<rparr>"

definition noKeyEnv :: Env where
  "noKeyEnv =
     \<lparr>ANTHROPIC_API_KEY = None, OPENAI_API_KEY = Some [], OPENROUTER_API_KEY = None,
      LLM_PROVIDER = Some ''openai'', LLM_MODEL = None\<rparr>"

definition systemTwiceMessages :: "ChatMessage list" where
  "systemTwiceMessages =
     [\<lparr>role = System, content = ''A''\<rparr>, \<lparr>role = User, content = ''Y''\<rparr>,
      \<lparr>role = System, content = ''B''\<rparr>, \<lparr>role = Assistant, content = ''Z''\<rparr>]"

definition systemEmptyLastMessages :: "ChatMessage list" where
  "systemEmptyLastMessages =
     [\<lparr>role = System, content = ''A''\<rparr>, \<lparr>role = User, content = ''Y''\<rparr>,
      \<lparr>role = System, content = []\<rparr>]"

definition exampleMessages :: "ChatMessage list" where
  "exampleMessages =
     [\<lparr>role = System, content = ''X''\<rparr>, \<lparr>role = User, content = ''Y''\<rparr>]"

text \<open>Networks that answer every request with one of the responses above.\<close>

definition fetchBlankOpenAI :: "OpenAIBody Request \<Rightarrow> OpenAIData Response" where
  "fetchBlankOpenAI req = blankOpenAIResponse"

definition fetchBlankAnthropic :: "AnthropicBody Request \<Rightarrow> AnthropicData Response" where
  "fetchBlankAnthropic req = blankAnthropicResponse"

definition fetchEmptyOpenAI :: "OpenAIBody Request \<Rightarrow> OpenAIData Response" where
  "fetchEmptyOpenAI req = emptyOpenAIResponse"

definition fetchEmptyAnthropic :: "AnthropicBody Request \<Rightarrow> AnthropicData Response" where
  "fetchEmptyAnthropic req = emptyAnthropicResponse"

text \<open>The contents of the system messages of a list, in order.\<close>

definition systemContents :: "ChatMessage list \<Rightarrow> string list" where
  "systemContents msgs = map content (filter (\<lambda>m. role m = System) msgs)"

text \<open>
  Inputs of the extractor: a parser that knows three texts, a service that answers every
  request with a given text, and a service whose request fails.
\<close>

definition junglerJson :: Json where
  "junglerJson = JObj [(''roles'', JArr [JStr ''jungler'', JStr ''Carry'', JNum 5])]"

definition duplicateJson :: Json where
  "duplicateJson =
     JObj [(''heroes'', JArr [JStr ''Axe'', JStr ''Axe'']),
           (''roles'', JArr [JStr ''Carry'', JStr ''carry'']),
           (''learningGoals'', JArr [JStr ''Warding'', JStr ''warding''])]"

definition exampleParse :: "string \<Rightarrow> Json option" where
  \<open>exampleParse s =
     (if s = ''null'' then Some JNull
      else if s = ''{"roles":["jungler","Carry",5]}'' then Some junglerJson
      else if s = ''{"heroes":["Axe","Axe"],"roles":["Carry","carry"],"learningGoals":["Warding","warding"]}''
        then Some duplicateJson
      else None)\<close>

definition llmAnswering ::
  "string \<Rightarrow> ChatMessage list \<Rightarrow> LLMOptions \<Rightarrow> LLMError + LLMResponse" where
  "llmAnswering answer messages options = Inr \<lparr>resp_content = answer, resp_usage = None\<rparr>"

definition llmFailing :: "ChatMessage list \<Rightarrow> LLMOptions \<Rightarrow> LLMError + LLMResponse" where
  "llmFailing messages options = Inl (TransportFailure 503 ''Service Unavailable'')"

definition freshProfile :: UserProfile where
  "freshProfile =
     \<lparr>userId = 1, preferredHeroes = [], preferredRoles = [],
      skillLevel = None, mmrBracket = None, playstyle = None,
      learningGoals = [], createdAt = ''2024-01-01 00:00:00'',
      updatedAt = ''2024-01-01 00:00:00''\<rparr>"

definition duplicateExtracted :: ExtractedPreferences where
  "duplicateExtracted =
     \<lparr>heroes = Some [''Axe'', ''Axe''], roles = Some [''Carry'', ''carry''],
      ex_skillLevel = None, ex_playstyle = None,
      ex_learningGoals = Some [''Warding'', ''warding'']\<rparr>"

text \<open>Profiles that already store one role: one of the vocabulary, one outside it.\<close>

definition midProfile :: UserProfile where
  "midProfile = freshProfile\<lparr>preferredRoles := [''mid'']\<rparr>"

definition junglerProfile :: UserProfile where
  "junglerProfile = freshProfile\<lparr>preferredRoles := [''jungler'']\<rparr>"

section \<open>Provider selection as the specification words it\<close>

text \<open>
  This section follows the specification, not the source: a key is present when the
  variable holds a non-empty string; an explicit preference names one of the three
  providers; the preferred provider is used when its key is present, otherwise the first
  of Anthropic, OpenAI, OpenRouter whose key is present; with no key present nothing is
  selected.  It is compared with \<open>createLLMService\<close> below.
\<close>

fun keyOf :: "Env \<Rightarrow> Provider \<Rightarrow> string option" where
  "keyOf env Anthropic = ANTHROPIC_API_KEY env"
| "keyOf env OpenAI = OPENAI_API_KEY env"
| "keyOf env OpenRouter = OPENROUTER_API_KEY env"

definition presentKey :: "Env \<Rightarrow> Provider \<Rightarrow> string option" where
  "presentKey env p = (case keyOf env p of Some (c # cs) \<Rightarrow> Some (c # cs) | _ \<Rightarrow> None)"

definition providerOfName :: "string \<Rightarrow> Provider option" where
  "providerOfName n =
     (if n = ''anthropic'' then Some Anthropic
      else if n = ''openai'' then Some OpenAI
      else if n = ''openrouter'' then Some OpenRouter
      else None)"

definition firstPresent_spec :: "Env \<Rightarrow> Provider list \<Rightarrow> (Provider \<times> string) option" where
  "firstPresent_spec env ps =
     (case find (\<lambda>p. presentKey env p \<noteq> None) ps of
        None \<Rightarrow> None
      | Some p \<Rightarrow> map_option (Pair p) (presentKey env p))"

definition selectProvider_spec :: "Env \<Rightarrow> (Provider \<times> string) option" where
  "selectProvider_spec env =
     (case Option.bind (LLM_PROVIDER env) providerOfName of
        None \<Rightarrow> firstPresent_spec env [Anthropic, OpenAI, OpenRouter]
      | Some p \<Rightarrow>
          (case presentKey env p of
             Some k \<Rightarrow> Some (p, k)
           | None \<Rightarrow> firstPresent_spec env [Anthropic, OpenAI, OpenRouter]))"

section \<open>Field-wise facts about the evolution blocks\<close>

lemma evolveHeroes_sel:
  "upd_preferredHeroes (updated (evolveHeroes p e r)) =
     (case heroes e of None \<Rightarrow> upd_preferredHeroes (updated r)
      | Some hs \<Rightarrow>
          if filter (\<lambda>h. h \<notin> set (preferredHeroes p)) hs = [] then upd_preferredHeroes (updated r)
          else Some (preferredHeroes p @ filter (\<lambda>h. h \<notin> set (preferredHeroes p)) hs))"
  "upd_preferredRoles (updated (evolveHeroes p e r)) = upd_preferredRoles (updated r)"
  "upd_skillLevel (updated (evolveHeroes p e r)) = upd_skillLevel (updated r)"
  "upd_playstyle (updated (evolveHeroes p e r)) = upd_playstyle (updated r)"
  "upd_learningGoals (updated (evolveHeroes p e r)) = upd_learningGoals (updated r)"
  by (simp_all add: evolveHeroes_def Let_def split: option.split)

lemma evolveRoles_sel:
  "upd_preferredRoles (updated (evolveRoles p e r)) =
     (case roles e of None \<Rightarrow> upd_preferredRoles (updated r)
      | Some rs \<Rightarrow>
          if filter (\<lambda>x. toLowerCase x \<notin> set (map toLowerCase (preferredRoles p))) rs = []
          then upd_preferredRoles (updated r)
          else Some (preferredRoles p @
                 filter (\<lambda>x. toLowerCase x \<notin> set (map toLowerCase (preferredRoles p))) rs))"
  "upd_preferredHeroes (updated (evolveRoles p e r)) = upd_preferredHeroes (updated r)"
  "upd_skillLevel (updated (evolveRoles p e r)) = upd_skillLevel (updated r)"
  "upd_playstyle (updated (evolveRoles p e r)) = upd_playstyle (updated r)"
  "upd_learningGoals (updated (evolveRoles p e r)) = upd_learningGoals (updated r)"
  by (simp_all add: evolveRoles_def Let_def split: option.split)

lemma evolveSkillLevel_sel:
  "upd_skillLevel (updated (evolveSkillLevel p e r)) =
     (if truthy (ex_skillLevel e) \<and> skillLevel p \<noteq> ex_skillLevel e then ex_skillLevel e
      else upd_skillLevel (updated r))"
  "upd_preferredHeroes (updated (evolveSkillLevel p e r)) = upd_preferredHeroes (updated r)"
  "upd_preferredRoles (updated (evolveSkillLevel p e r)) = upd_preferredRoles (updated r)"
  "upd_playstyle (updated (evolveSkillLevel p e r)) = upd_playstyle (updated r)"
  "upd_learningGoals (updated (evolveSkillLevel p e r)) = upd_learningGoals (updated r)"
  by (simp_all add: evolveSkillLevel_def)

lemma evolvePlaystyle_sel:
  "upd_preferredHeroes (updated (evolvePlaystyle p e r)) = upd_preferredHeroes (updated r)"
  "upd_preferredRoles (updated (evolvePlaystyle p e r)) = upd_preferredRoles (updated r)"
  "upd_skillLevel (updated (evolvePlaystyle p e r)) = upd_skillLevel (updated r)"
  "upd_learningGoals (updated (evolvePlaystyle p e r)) = upd_learningGoals (updated r)"
  by (simp_all add: evolvePlaystyle_def Let_def split: option.split list.split)

lemma evolveGoals_sel:
  "upd_learningGoals (updated (evolveGoals p e r)) =
     (case ex_learningGoals e of None \<Rightarrow> upd_learningGoals (updated r)
      | Some gs \<Rightarrow>
          if filter (\<lambda>g. toLowerCase g \<notin> set (map toLowerCase (learningGoals p))) gs = []
          then upd_learningGoals (updated r)
          else Some (learningGoals p @
                 filter (\<lambda>g. toLowerCase g \<notin> set (map toLowerCase (learningGoals p))) gs))"
  "upd_preferredHeroes (updated (evolveGoals p e r)) = upd_preferredHeroes (updated r)"
  "upd_preferredRoles (updated (evolveGoals p e r)) = upd_preferredRoles (updated r)"
  "upd_skillLevel (updated (evolveGoals p e r)) = upd_skillLevel (updated r)"
  "upd_playstyle (updated (evolveGoals p e r)) = upd_playstyle (updated r)"
  by (simp_all add: evolveGoals_def Let_def split: option.split)

lemmas evolve_sel = evolveHeroes_sel evolveRoles_sel evolveSkillLevel_sel evolvePlaystyle_sel
  evolveGoals_sel

lemma evolveProfile_heroes:
  "upd_preferredHeroes (updated (evolveProfile p e)) =
     (case heroes e of None \<Rightarrow> None
      | Some hs \<Rightarrow>
          if filter (\<lambda>h. h \<notin> set (preferredHeroes p)) hs = [] then None
          else Some (preferredHeroes p @ filter (\<lambda>h. h \<notin> set (preferredHeroes p)) hs))"
  by (simp add: evolveProfile_def evolve_sel emptyPartial_def split: option.split)

lemma evolveProfile_roles:
  "upd_preferredRoles (updated (evolveProfile p e)) =
     (case roles e of None \<Rightarrow> None
      | Some rs \<Rightarrow>
          if filter (\<lambda>x. toLowerCase x \<notin> set (map toLowerCase (preferredRoles p))) rs = []
          then None
          else Some (preferredRoles p @
                 filter (\<lambda>x. toLowerCase x \<notin> set (map toLowerCase (preferredRoles p))) rs))"
  by (simp add: evolveProfile_def evolve_sel emptyPartial_def split: option.split)

lemma evolveProfile_goals:
  "upd_learningGoals (updated (evolveProfile p e)) =
     (case ex_learningGoals e of None \<Rightarrow> None
      | Some gs \<Rightarrow>
          if filter (\<lambda>g. toLowerCase g \<notin> set (map toLowerCase (learningGoals p))) gs = []
          then None
          else Some (learningGoals p @
                 filter (\<lambda>g. toLowerCase g \<notin> set (map toLowerCase (learningGoals p))) gs))"
  by (simp add: evolveProfile_def evolve_sel emptyPartial_def split: option.split)

lemma evolveProfile_skill:
  "upd_skillLevel (updated (evolveProfile p e)) =
     (if truthy (ex_skillLevel e) \<and> skillLevel p \<noteq> ex_skillLevel e then ex_skillLevel e else None)"
  by (simp add: evolveProfile_def evolve_sel emptyPartial_def split: option.split)


lemma evolvePlaystyle_playstyle:
  "upd_playstyle (updated (evolvePlaystyle p e r)) =
     (case ex_playstyle e of None \<Rightarrow> upd_playstyle (updated r)
      | Some s \<Rightarrow>
          if s = [] then upd_playstyle (updated r)
          else (case playstyle p of
                  Some (c # cs) \<Rightarrow>
                    if includesStr (toLowerCase (c # cs)) (toLowerCase s)
                    then upd_playstyle (updated r)
                    else Some ((c # cs) @ '', '' @ s)
                | _ \<Rightarrow> Some s))"
  by (simp add: evolvePlaystyle_def Let_def split: option.split list.split)

lemma evolveProfile_playstyle:
  "upd_playstyle (updated (evolveProfile p e)) =
     (case ex_playstyle e of None \<Rightarrow> None
      | Some s \<Rightarrow>
          if s = [] then None
          else (case playstyle p of
                  Some (c # cs) \<Rightarrow>
                    if includesStr (toLowerCase (c # cs)) (toLowerCase s) then None
                    else Some ((c # cs) @ '', '' @ s)
                | _ \<Rightarrow> Some s))"
  by (simp add: evolveProfile_def evolve_sel evolvePlaystyle_playstyle emptyPartial_def
      split: option.split list.split)

lemma updateProfile_sel:
  "preferredHeroes (updateProfile now p u) =
     (case upd_preferredHeroes u of None \<Rightarrow> preferredHeroes p | Some hs \<Rightarrow> hs)"
  "preferredRoles (updateProfile now p u) =
     (case upd_preferredRoles u of None \<Rightarrow> preferredRoles p | Some rs \<Rightarrow> rs)"
  "skillLevel (updateProfile now p u) =
     (case upd_skillLevel u of None \<Rightarrow> skillLevel p | Some s \<Rightarrow> Some s)"
  "playstyle (updateProfile now p u) =
     (case upd_playstyle u of None \<Rightarrow> playstyle p | Some s \<Rightarrow> Some s)"
  "learningGoals (updateProfile now p u) =
     (case upd_learningGoals u of None \<Rightarrow> learningGoals p | Some gs \<Rightarrow> gs)"
  by (auto simp: updateProfile_def emptyPartial_def)

text \<open>The lists of the profile after one round of evolution.\<close>

lemma evolved_heroes:
  "preferredHeroes (updateProfile now p (updated (evolveProfile p e))) =
     preferredHeroes p @
       (case heroes e of None \<Rightarrow> []
        | Some hs \<Rightarrow> filter (\<lambda>h. h \<notin> set (preferredHeroes p)) hs)"
  by (simp add: updateProfile_sel evolveProfile_heroes split: option.split)

lemma evolved_roles:
  "preferredRoles (updateProfile now p (updated (evolveProfile p e))) =
     preferredRoles p @
       (case roles e of None \<Rightarrow> []
        | Some rs \<Rightarrow>
            filter (\<lambda>x. toLowerCase x \<notin> set (map toLowerCase (preferredRoles p))) rs)"
  by (simp add: updateProfile_sel evolveProfile_roles split: option.split)

lemma evolved_goals:
  "learningGoals (updateProfile now p (updated (evolveProfile p e))) =
     learningGoals p @
       (case ex_learningGoals e of None \<Rightarrow> []
        | Some gs \<Rightarrow>
            filter (\<lambda>g. toLowerCase g \<notin> set (map toLowerCase (learningGoals p))) gs)"
  by (simp add: updateProfile_sel evolveProfile_goals split: option.split)

text \<open>
  Claim C1.  Evolution never removes an element of a list field: whenever \<open>evolveProfile\<close>
  assigns \<open>preferredHeroes\<close>, \<open>preferredRoles\<close> or \<open>learningGoals\<close> in \<open>updated\<close>, every
  element of the profile's list occurs in the assigned list; and in the profile read back
  after \<open>updateProfile\<close> (where an unassigned field keeps the old list) every element of
  the old list is still present.
\<close>

theorem evolveProfile_never_removes:
  "(case upd_preferredHeroes (updated (evolveProfile p e)) of
      None \<Rightarrow> True | Some hs \<Rightarrow> set (preferredHeroes p) \<subseteq> set hs) \<and>
   (case upd_preferredRoles (updated (evolveProfile p e)) of
      None \<Rightarrow> True | Some rs \<Rightarrow> set (preferredRoles p) \<subseteq> set rs) \<and>
   (case upd_learningGoals (updated (evolveProfile p e)) of
      None \<Rightarrow> True | Some gs \<Rightarrow> set (learningGoals p) \<subseteq> set gs) \<and>
   set (preferredHeroes p) \<subseteq>
     set (preferredHeroes (updateProfile now p (updated (evolveProfile p e)))) \<and>
   set (preferredRoles p) \<subseteq>
     set (preferredRoles (updateProfile now p (updated (evolveProfile p e)))) \<and>
   set (learningGoals p) \<subseteq>
     set (learningGoals (updateProfile now p (updated (evolveProfile p e))))"
proof -
  have "case upd_preferredHeroes (updated (evolveProfile p e)) of
      None \<Rightarrow> True | Some hs \<Rightarrow> set (preferredHeroes p) \<subseteq> set hs"
    by (simp add: evolveProfile_heroes split: option.split)
  moreover have "case upd_preferredRoles (updated (evolveProfile p e)) of
      None \<Rightarrow> True | Some rs \<Rightarrow> set (preferredRoles p) \<subseteq> set rs"
    by (simp add: evolveProfile_roles split: option.split)
  moreover have "case upd_learningGoals (updated (evolveProfile p e)) of
      None \<Rightarrow> True | Some gs \<Rightarrow> set (learningGoals p) \<subseteq> set gs"
    by (simp add: evolveProfile_goals split: option.split)
  moreover have "set (preferredHeroes p) \<subseteq>
     set (preferredHeroes (updateProfile now p (updated (evolveProfile p e))))"
    by (simp add: evolved_heroes)
  moreover have "set (preferredRoles p) \<subseteq>
     set (preferredRoles (updateProfile now p (updated (evolveProfile p e))))"
    by (simp add: evolved_roles)
  moreover have "set (learningGoals p) \<subseteq>
     set (learningGoals (updateProfile now p (updated (evolveProfile p e))))"
    by (simp add: evolved_goals)
  ultimately show ?thesis by blast
qed


text \<open>When a block finds nothing new it returns its argument.\<close>

lemma evolveHeroes_noop:
  "(\<And>hs. heroes e = Some hs \<Longrightarrow> set hs \<subseteq> set (preferredHeroes p)) \<Longrightarrow> evolveHeroes p e r = r"
  by (auto simp: evolveHeroes_def Let_def filter_empty_conv split: option.split)

lemma evolveRoles_noop:
  "(\<And>rs. roles e = Some rs \<Longrightarrow> toLowerCase ` set rs \<subseteq> toLowerCase ` set (preferredRoles p))
     \<Longrightarrow> evolveRoles p e r = r"
  by (auto simp: evolveRoles_def Let_def filter_empty_conv split: option.split)

lemma evolveGoals_noop:
  "(\<And>gs. ex_learningGoals e = Some gs \<Longrightarrow>
       toLowerCase ` set gs \<subseteq> toLowerCase ` set (learningGoals p))
     \<Longrightarrow> evolveGoals p e r = r"
  by (auto simp: evolveGoals_def Let_def filter_empty_conv split: option.split)

lemma evolveSkillLevel_noop:
  "(truthy (ex_skillLevel e) \<Longrightarrow> skillLevel p = ex_skillLevel e) \<Longrightarrow> evolveSkillLevel p e r = r"
  by (auto simp: evolveSkillLevel_def)

lemma evolvePlaystyle_noop:
  "(\<And>s. ex_playstyle e = Some s \<Longrightarrow> s \<noteq> [] \<Longrightarrow>
       (\<exists>old. playstyle p = Some old \<and> old \<noteq> [] \<and> includesStr (toLowerCase old) (toLowerCase s)))
     \<Longrightarrow> evolvePlaystyle p e r = r"
  by (auto simp: evolvePlaystyle_def Let_def split: option.split list.split)

lemma includesStr_refl: "includesStr s s"
  by (simp add: includesStr_def)

lemma includesStr_merged: "includesStr (toLowerCase (old @ '', '' @ s)) (toLowerCase s)"
proof -
  have "toLowerCase (old @ '', '' @ s) = toLowerCase (old @ '', '') @ toLowerCase s"
    by (simp add: toLowerCase_def)
  then show ?thesis
    by (simp add: includesStr_def)
qed

lemma evolved_skill:
  "truthy (ex_skillLevel e) \<Longrightarrow>
     skillLevel (updateProfile now p (updated (evolveProfile p e))) = ex_skillLevel e"
  by (cases "ex_skillLevel e") (auto simp: updateProfile_sel evolveProfile_skill)

lemma evolved_playstyle:
  assumes "ex_playstyle e = Some s" "s \<noteq> []"
  shows "\<exists>old. playstyle (updateProfile now p (updated (evolveProfile p e))) = Some old \<and>
           old \<noteq> [] \<and> includesStr (toLowerCase old) (toLowerCase s)"
proof (cases "playstyle p")
  case None
  with assms show ?thesis
    by (simp add: updateProfile_sel evolveProfile_playstyle includesStr_refl)
next
  case (Some old)
  show ?thesis
  proof (cases old)
    case Nil
    with Some assms show ?thesis
      by (simp add: updateProfile_sel evolveProfile_playstyle includesStr_refl)
  next
    case (Cons c cs)
    show ?thesis
    proof (cases "includesStr (toLowerCase (c # cs)) (toLowerCase s)")
      case True
      with Some Cons assms show ?thesis
        by (simp add: updateProfile_sel evolveProfile_playstyle)
    next
      case False
      have "includesStr (toLowerCase ((c # cs) @ '', '' @ s)) (toLowerCase s)"
        by (rule includesStr_merged)
      with False Some Cons assms show ?thesis
        by (simp add: updateProfile_sel evolveProfile_playstyle)
    qed
  qed
qed

text \<open>
  Claim C2.  Evolution is idempotent: evolving the already evolved profile with the same
  extracted record assigns no field and records no change.
\<close>

theorem evolveProfile_idempotent:
  "evolveProfile (updateProfile now p (updated (evolveProfile p e))) e =
     \<lparr>updated = emptyPartial, changes = []\<rparr>"
proof -
  let ?p' = "updateProfile now p (updated (evolveProfile p e))"
  have h: "\<And>r. evolveHeroes ?p' e r = r"
    by (rule evolveHeroes_noop) (auto simp: evolved_heroes)
  have ro: "\<And>r. evolveRoles ?p' e r = r"
    by (rule evolveRoles_noop) (auto simp: evolved_roles)
  have g: "\<And>r. evolveGoals ?p' e r = r"
    by (rule evolveGoals_noop) (auto simp: evolved_goals)
  have s: "\<And>r. evolveSkillLevel ?p' e r = r"
    by (rule evolveSkillLevel_noop) (simp add: evolved_skill)
  have pl: "\<And>r. evolvePlaystyle ?p' e r = r"
    by (rule evolvePlaystyle_noop) (rule evolved_playstyle)
  show ?thesis
    unfolding evolveProfile_def [of ?p' e] by (simp only: h ro g s pl)
qed


lemmas eval_string = toLowerCase_def toLowerChar_def char_of_eq_iff includesStr_def
  sublist_code prefix_code

text \<open>What each block pushes on \<open>changes\<close>.\<close>

lemma evolveHeroes_changes:
  "changes (evolveHeroes p e r) = changes r @
     (case heroes e of None \<Rightarrow> []
      | Some hs \<Rightarrow>
          if filter (\<lambda>h. h \<notin> set (preferredHeroes p)) hs = [] then []
          else [\<lparr>field = ''preferredHeroes'', oldValue = VStrings (preferredHeroes p),
                 newValue = VStrings (preferredHeroes p @
                   filter (\<lambda>h. h \<notin> set (preferredHeroes p)) hs),
                 action = Add\<rparr>])"
  by (simp add: evolveHeroes_def Let_def split: option.split)

lemma evolveRoles_changes:
  "changes (evolveRoles p e r) = changes r @
     (case roles e of None \<Rightarrow> []
      | Some rs \<Rightarrow>
          if filter (\<lambda>x. toLowerCase x \<notin> set (map toLowerCase (preferredRoles p))) rs = []
          then []
          else [\<lparr>field = ''preferredRoles'', oldValue = VStrings (preferredRoles p),
                 newValue = VStrings (preferredRoles p @
                   filter (\<lambda>x. toLowerCase x \<notin> set (map toLowerCase (preferredRoles p))) rs),
                 action = Add\<rparr>])"
  by (simp add: evolveRoles_def Let_def split: option.split)

lemma evolveSkillLevel_changes:
  "changes (evolveSkillLevel p e r) = changes r @
     (if truthy (ex_skillLevel e) \<and> skillLevel p \<noteq> ex_skillLevel e
      then [\<lparr>field = ''skillLevel'', oldValue = valueOf (skillLevel p),
              newValue = valueOf (ex_skillLevel e), action = Replace\<rparr>]
      else [])"
  by (simp add: evolveSkillLevel_def)

lemma evolvePlaystyle_changes:
  "changes (evolvePlaystyle p e r) = changes r @
     (case ex_playstyle e of None \<Rightarrow> []
      | Some s \<Rightarrow>
          if s = [] then []
          else (case playstyle p of
                  Some (c # cs) \<Rightarrow>
                    if includesStr (toLowerCase (c # cs)) (toLowerCase s) then []
                    else [\<lparr>field = ''playstyle'', oldValue = VString (c # cs),
                           newValue = VString ((c # cs) @ '', '' @ s), action = Merge\<rparr>]
                | _ \<Rightarrow>
                    [\<lparr>field = ''playstyle'', oldValue = valueOf (playstyle p),
                      newValue = VString s, action = Replace\<rparr>]))"
  by (simp add: evolvePlaystyle_def Let_def split: option.split list.split)

lemma evolveGoals_changes:
  "changes (evolveGoals p e r) = changes r @
     (case ex_learningGoals e of None \<Rightarrow> []
      | Some gs \<Rightarrow>
          if filter (\<lambda>g. toLowerCase g \<notin> set (map toLowerCase (learningGoals p))) gs = []
          then []
          else [\<lparr>field = ''learningGoals'', oldValue = VStrings (learningGoals p),
                 newValue = VStrings (learningGoals p @
                   filter (\<lambda>g. toLowerCase g \<notin> set (map toLowerCase (learningGoals p))) gs),
                 action = Add\<rparr>])"
  by (simp add: evolveGoals_def Let_def split: option.split)

lemmas evolve_changes = evolveHeroes_changes evolveRoles_changes evolveSkillLevel_changes
  evolvePlaystyle_changes evolveGoals_changes

lemma playstyle_changes_of_profile:
  "filter (\<lambda>c. field c = ''playstyle'') (changes (evolveProfile p e)) =
     changes (evolvePlaystyle p e \<lparr>updated = emptyPartial, changes = []\<rparr>)"
  by (simp add: evolveProfile_def evolve_changes split: option.split list.split)

lemma ex_round1:
  "map action (changes (evolveProfile exampleProfile exampleExtracted)) =
     [Add, Add, Replace, Merge, Add]"
  by (simp add: evolveProfile_def evolve_changes exampleProfile_def exampleExtracted_def
      eval_string)

text \<open>
  C1 on the example: the three entries of the example profile survive the evolution that
  adds a hero, a role and a goal.
\<close>

theorem evolveProfile_never_removes_witness:
  "''Axe'' \<in> set (preferredHeroes (updateProfile ''2024-01-02 00:00:00'' exampleProfile
      (updated (evolveProfile exampleProfile exampleExtracted)))) \<and>
   ''carry'' \<in> set (preferredRoles (updateProfile ''2024-01-02 00:00:00'' exampleProfile
      (updated (evolveProfile exampleProfile exampleExtracted)))) \<and>
   ''warding'' \<in> set (learningGoals (updateProfile ''2024-01-02 00:00:00'' exampleProfile
      (updated (evolveProfile exampleProfile exampleExtracted))))"
  using evolveProfile_never_removes [of exampleProfile exampleExtracted "''2024-01-02 00:00:00''"]
  by (simp add: exampleProfile_def)

text \<open>
  C2 on the example: the first round records five changes, the second round none.
\<close>

theorem evolveProfile_idempotent_witness:
  "map action (changes (evolveProfile exampleProfile exampleExtracted)) =
     [Add, Add, Replace, Merge, Add] \<and>
   evolveProfile
     (updateProfile ''2024-01-02 00:00:00'' exampleProfile
        (updated (evolveProfile exampleProfile exampleExtracted)))
     exampleExtracted = \<lparr>updated = emptyPartial, changes = []\<rparr>"
  using ex_round1
    evolveProfile_idempotent [of "''2024-01-02 00:00:00''" exampleProfile exampleExtracted]
  by blast

section \<open>The playstyle policy\<close>

lemma changes_only_playstyle:
  assumes "heroes e = None" "roles e = None" "ex_skillLevel e = None" "ex_learningGoals e = None"
  shows "changes (evolveProfile p e) =
           changes (evolvePlaystyle p e \<lparr>updated = emptyPartial, changes = []\<rparr>)"
  using assms by (simp add: evolveProfile_def evolve_changes)

text \<open>
  Claim C9.  The playstyle block, for an extracted playstyle \<open>s\<close> (a non-empty string, as
  the block's own test requires): (i) when the profile has no playstyle (\<open>null\<close> or the
  empty string) the result assigns \<open>s\<close> and records one \<open>replace\<close> change; (ii) when the
  lower-cased \<open>s\<close> occurs in the lower-cased profile playstyle nothing is assigned and no
  playstyle change is recorded; (iii) otherwise the result assigns \<open>old, s\<close> and records
  exactly one \<open>merge\<close> change.  In (ii) and (iii), where the two strings are compared in
  lower case, both are ASCII strings, on which the folding of the model is the
  platform's.  The changes counted are those of the field \<open>playstyle\<close>; when the record
  carries nothing but the playstyle they are all the changes there are.
\<close>

theorem playstyle_policy:
  assumes "ex_playstyle e = Some s" and "s \<noteq> []"
  shows
    "(\<not> truthy (playstyle p) \<longrightarrow>
        upd_playstyle (updated (evolveProfile p e)) = Some s \<and>
        filter (\<lambda>c. field c = ''playstyle'') (changes (evolveProfile p e)) =
          [\<lparr>field = ''playstyle'', oldValue = valueOf (playstyle p),
            newValue = VString s, action = Replace\<rparr>]) \<and>
     (\<forall>old. playstyle p = Some old \<and> old \<noteq> [] \<and> isAscii old \<and> isAscii s \<and>
        includesStr (toLowerCase old) (toLowerCase s) \<longrightarrow>
        upd_playstyle (updated (evolveProfile p e)) = None \<and>
        filter (\<lambda>c. field c = ''playstyle'') (changes (evolveProfile p e)) = []) \<and>
     (\<forall>old. playstyle p = Some old \<and> old \<noteq> [] \<and> isAscii old \<and> isAscii s \<and>
        \<not> includesStr (toLowerCase old) (toLowerCase s) \<longrightarrow>
        upd_playstyle (updated (evolveProfile p e)) = Some (old @ '', '' @ s) \<and>
        filter (\<lambda>c. field c = ''playstyle'') (changes (evolveProfile p e)) =
          [\<lparr>field = ''playstyle'', oldValue = VString old,
            newValue = VString (old @ '', '' @ s), action = Merge\<rparr>]) \<and>
     (heroes e = None \<and> roles e = None \<and> ex_skillLevel e = None \<and>
        ex_learningGoals e = None \<longrightarrow>
        filter (\<lambda>c. field c = ''playstyle'') (changes (evolveProfile p e)) =
          changes (evolveProfile p e))"
proof (intro conjI allI impI)
  assume "\<not> truthy (playstyle p)"
  then have a: "playstyle p = None \<or> playstyle p = Some []"
    by (cases "playstyle p") auto
  from a assms show "upd_playstyle (updated (evolveProfile p e)) = Some s"
    by (auto simp: evolveProfile_playstyle)
  from a assms show "filter (\<lambda>c. field c = ''playstyle'') (changes (evolveProfile p e)) =
          [\<lparr>field = ''playstyle'', oldValue = valueOf (playstyle p),
            newValue = VString s, action = Replace\<rparr>]"
    by (auto simp: playstyle_changes_of_profile evolvePlaystyle_changes)
next
  fix old
  assume h: "playstyle p = Some old \<and> old \<noteq> [] \<and> isAscii old \<and> isAscii s \<and>
     includesStr (toLowerCase old) (toLowerCase s)"
  then obtain c cs where o: "old = c # cs" by (cases old) auto
  from h o assms show "upd_playstyle (updated (evolveProfile p e)) = None"
    by (simp add: evolveProfile_playstyle)
  from h o assms show "filter (\<lambda>c. field c = ''playstyle'') (changes (evolveProfile p e)) = []"
    by (simp add: playstyle_changes_of_profile evolvePlaystyle_changes)
next
  fix old
  assume h: "playstyle p = Some old \<and> old \<noteq> [] \<and> isAscii old \<and> isAscii s \<and>
     \<not> includesStr (toLowerCase old) (toLowerCase s)"
  then obtain c cs where o: "old = c # cs" by (cases old) auto
  from h o assms show "upd_playstyle (updated (evolveProfile p e)) = Some (old @ '', '' @ s)"
    by (simp add: evolveProfile_playstyle)
  from h o assms show "filter (\<lambda>c. field c = ''playstyle'') (changes (evolveProfile p e)) =
          [\<lparr>field = ''playstyle'', oldValue = VString old,
            newValue = VString (old @ '', '' @ s), action = Merge\<rparr>]"
    by (simp add: playstyle_changes_of_profile evolvePlaystyle_changes)
next
  assume "heroes e = None \<and> roles e = None \<and> ex_skillLevel e = None \<and>
        ex_learningGoals e = None"
  then have a: "changes (evolveProfile p e) =
          changes (evolvePlaystyle p e \<lparr>updated = emptyPartial, changes = []\<rparr>)"
    by (intro changes_only_playstyle) simp_all
  show "filter (\<lambda>c. field c = ''playstyle'') (changes (evolveProfile p e)) =
          changes (evolveProfile p e)"
    by (rule trans [OF playstyle_changes_of_profile a [symmetric]])
qed


text \<open>
  C9 on the specification's examples: \<open>Aggressive\<close> against \<open>aggressive\<close> changes nothing,
  \<open>aggressive\<close> against \<open>farming focused\<close> merges, \<open>aggressive\<close> against no playstyle
  replaces.
\<close>

theorem playstyle_policy_witness:
  "upd_playstyle (updated (evolveProfile (exampleProfile\<lparr>playstyle := Some ''aggressive''\<rparr>)
      (playstyleOnly ''Aggressive''))) = None \<and>
   changes (evolveProfile (exampleProfile\<lparr>playstyle := Some ''aggressive''\<rparr>)
      (playstyleOnly ''Aggressive'')) = [] \<and>
   upd_playstyle (updated (evolveProfile exampleProfile (playstyleOnly ''aggressive''))) =
      Some ''farming focused, aggressive'' \<and>
   changes (evolveProfile exampleProfile (playstyleOnly ''aggressive'')) =
      [\<lparr>field = ''playstyle'', oldValue = VString ''farming focused'',
        newValue = VString ''farming focused, aggressive'', action = Merge\<rparr>] \<and>
   upd_playstyle (updated (evolveProfile (exampleProfile\<lparr>playstyle := None\<rparr>)
      (playstyleOnly ''aggressive''))) = Some ''aggressive'' \<and>
   changes (evolveProfile (exampleProfile\<lparr>playstyle := None\<rparr>) (playstyleOnly ''aggressive'')) =
      [\<lparr>field = ''playstyle'', oldValue = VNull,
        newValue = VString ''aggressive'', action = Replace\<rparr>]"
proof -
  let ?F = "filter (\<lambda>c. field c = ''playstyle'')"
  let ?P1 = "exampleProfile\<lparr>playstyle := Some ''aggressive''\<rparr>"
  let ?P3 = "exampleProfile\<lparr>playstyle := None\<rparr>"
  let ?E1 = "playstyleOnly ''Aggressive''"
  let ?E2 = "playstyleOnly ''aggressive''"
  have inc: "includesStr (toLowerCase ''aggressive'') (toLowerCase ''Aggressive'')"
    by (simp add: eval_string)
  have ninc: "\<not> includesStr (toLowerCase ''farming focused'') (toLowerCase ''aggressive'')"
    by (simp add: eval_string)
  have asc: "isAscii ''aggressive''" "isAscii ''Aggressive''" "isAscii ''farming focused''"
    by (simp_all add: isAscii_def)
  have a1: "?F (changes (evolveProfile ?P1 ?E1)) = changes (evolveProfile ?P1 ?E1)"
    using playstyle_policy [of ?E1 "''Aggressive''" ?P1, THEN conjunct2, THEN conjunct2, THEN conjunct2]
    by (simp add: playstyleOnly_def emptyPreferences_def)
  have b1: "upd_playstyle (updated (evolveProfile ?P1 ?E1)) = None \<and>
      ?F (changes (evolveProfile ?P1 ?E1)) = []"
    using playstyle_policy [of ?E1 "''Aggressive''" ?P1, THEN conjunct2, THEN conjunct1] inc asc
    by (simp add: playstyleOnly_def emptyPreferences_def exampleProfile_def)
  have a2: "?F (changes (evolveProfile exampleProfile ?E2)) =
      changes (evolveProfile exampleProfile ?E2)"
    using playstyle_policy [of ?E2 "''aggressive''" exampleProfile, THEN conjunct2, THEN conjunct2, THEN conjunct2]
    by (simp add: playstyleOnly_def emptyPreferences_def)
  have b2: "upd_playstyle (updated (evolveProfile exampleProfile ?E2)) =
        Some ''farming focused, aggressive'' \<and>
      ?F (changes (evolveProfile exampleProfile ?E2)) =
        [\<lparr>field = ''playstyle'', oldValue = VString ''farming focused'',
          newValue = VString ''farming focused, aggressive'', action = Merge\<rparr>]"
    using playstyle_policy [of ?E2 "''aggressive''" exampleProfile,
        THEN conjunct2, THEN conjunct2, THEN conjunct1] ninc asc
    by (simp add: playstyleOnly_def emptyPreferences_def exampleProfile_def)
  have a3: "?F (changes (evolveProfile ?P3 ?E2)) = changes (evolveProfile ?P3 ?E2)"
    using playstyle_policy [of ?E2 "''aggressive''" ?P3, THEN conjunct2, THEN conjunct2, THEN conjunct2]
    by (simp add: playstyleOnly_def emptyPreferences_def)
  have b3: "upd_playstyle (updated (evolveProfile ?P3 ?E2)) = Some ''aggressive'' \<and>
      ?F (changes (evolveProfile ?P3 ?E2)) =
        [\<lparr>field = ''playstyle'', oldValue = VNull,
          newValue = VString ''aggressive'', action = Replace\<rparr>]"
    using playstyle_policy [of ?E2 "''aggressive''" ?P3, THEN conjunct1]
    by (simp add: playstyleOnly_def emptyPreferences_def exampleProfile_def)
  from b1 [unfolded a1] b2 [unfolded a2] b3 [unfolded a3] show ?thesis
    by blast
qed

section \<open>The Anthropic request\<close>

lemma splitMessages_snd:
  "snd (splitMessages msgs (sp, conv)) = conv @ filter (\<lambda>m. role m \<noteq> System) msgs"
  by (induction msgs arbitrary: sp conv) simp_all

lemma splitMessages_fst:
  "fst (splitMessages msgs (sp, conv)) =
     (case rev (filter (\<lambda>m. role m = System) msgs) of
        [] \<Rightarrow> sp
      | m # _ \<Rightarrow> Some (content m))"
  by (induction msgs arbitrary: sp conv) (simp_all split: list.split)

lemma anthropicBody_messages:
  "an_messages (anthropicBody svc msgs t k) = filter (\<lambda>m. role m \<noteq> System) msgs"
  using splitMessages_snd [of msgs None "[]"]
  by (auto simp: anthropicBody_def split: prod.split)

lemma anthropicBody_system:
  "an_system (anthropicBody svc msgs t k) =
     (case rev (filter (\<lambda>m. role m = System) msgs) of
        [] \<Rightarrow> None
      | m # _ \<Rightarrow> if content m = [] then None else Some (content m))"
  using splitMessages_fst [of msgs None "[]"]
  by (auto simp: anthropicBody_def split: prod.split list.split)

text \<open>
  Claim C5.  For the messages \<open>[{system, x}, {user, y}]\<close> the body the Anthropic path
  sends has the messages \<open>[{user, y}]\<close> and the top-level \<open>system\<close> field \<open>x\<close> (omitted
  when \<open>x\<close> is empty; \<open>X\<close> is not); and for every message list no message of the
  emitted \<open>messages\<close> array has the role \<open>system\<close>.
\<close>

theorem anthropic_request_shaping:
  "an_messages (body (anthropicRequest svc
       [\<lparr>role = System, content = x\<rparr>, \<lparr>role = User, content = y\<rparr>] t k)) =
     [\<lparr>role = User, content = y\<rparr>] \<and>
   an_system (body (anthropicRequest svc
       [\<lparr>role = System, content = x\<rparr>, \<lparr>role = User, content = y\<rparr>] t k)) =
     (if x = [] then None else Some x) \<and>
   (\<forall>m \<in> set (an_messages (body (anthropicRequest svc msgs t k))). role m \<noteq> System)"
  by (simp add: anthropicRequest_def anthropicBody_messages anthropicBody_system)

theorem anthropic_request_shaping_witness:
  "an_messages (body (anthropicRequest (exampleService Anthropic)
       [\<lparr>role = System, content = ''X''\<rparr>, \<lparr>role = User, content = ''Y''\<rparr>] (7 / 10) 1024)) =
     [\<lparr>role = User, content = ''Y''\<rparr>] \<and>
   an_system (body (anthropicRequest (exampleService Anthropic)
       [\<lparr>role = System, content = ''X''\<rparr>, \<lparr>role = User, content = ''Y''\<rparr>] (7 / 10) 1024)) =
     Some ''X'' \<and>
   role (hd (an_messages (body (anthropicRequest (exampleService Anthropic)
       [\<lparr>role = System, content = ''X''\<rparr>, \<lparr>role = User, content = ''Y''\<rparr>] (7 / 10) 1024)))) \<noteq>
     System"
  using anthropic_request_shaping [of "exampleService Anthropic" "''X''" "''Y''" "7 / 10" 1024
      "[\<lparr>role = System, content = ''X''\<rparr>, \<lparr>role = User, content = ''Y''\<rparr>]"]
  by simp

lemma anthropicBody_system_last:
  "an_system (anthropicBody svc msgs t k) =
     (if systemContents msgs = [] then None
      else if last (systemContents msgs) = [] then None
      else Some (last (systemContents msgs)))"
proof (cases "rev (filter (\<lambda>m. role m = System) msgs)")
  case Nil
  then show ?thesis
    by (simp add: anthropicBody_system systemContents_def)
next
  case (Cons m ms)
  then have "filter (\<lambda>m. role m = System) msgs = rev ms @ [m]"
    by (simp add: rev_swap)
  then have "systemContents msgs = map content (rev ms) @ [content m]"
    by (simp add: systemContents_def)
  with Cons show ?thesis
    by (simp add: anthropicBody_system)
qed

text \<open>
  Claim C10, as the code has it.  The emitted \<open>messages\<close> array is the input with the
  system messages removed, wherever they stand and in the order of the input.  The
  \<open>system\<close> field is decided by the last system message alone: it is that message's
  content when the content is not empty, and it is omitted when the content is empty or
  when there is no system message; earlier system messages never reach the payload.
\<close>

theorem anthropic_system_last_wins:
  "an_messages (body (anthropicRequest svc msgs t k)) = filter (\<lambda>m. role m \<noteq> System) msgs \<and>
   an_system (body (anthropicRequest svc msgs t k)) =
     (if systemContents msgs = [] then None
      else if last (systemContents msgs) = [] then None
      else Some (last (systemContents msgs)))"
  by (simp add: anthropicRequest_def anthropicBody_messages anthropicBody_system_last)

text \<open>
  C10 on a list with two system messages, the first leading and the second in the
  middle: both leave the array and the second one's content is the \<open>system\<close> field.
\<close>

theorem anthropic_system_last_wins_witness:
  "systemContents systemTwiceMessages = [''A'', ''B''] \<and>
   an_messages (body (anthropicRequest (exampleService Anthropic) systemTwiceMessages (7 / 10) 1024)) =
     [\<lparr>role = User, content = ''Y''\<rparr>, \<lparr>role = Assistant, content = ''Z''\<rparr>] \<and>
   an_system (body (anthropicRequest (exampleService Anthropic) systemTwiceMessages (7 / 10) 1024)) =
     Some ''B''"
  using anthropic_system_last_wins [of "exampleService Anthropic" systemTwiceMessages "7 / 10" 1024]
  by (simp add: systemTwiceMessages_def systemContents_def)

text \<open>
  The claim as stated fails when the last system message is empty: two system messages
  are present, the content of the last is the empty string, and the payload has no
  \<open>system\<close> field at all, so the field does not equal that content.
\<close>

theorem anthropic_system_last_wins_counterexample:
  "systemContents systemEmptyLastMessages = [''A'', []] \<and>
   an_system (body (anthropicRequest (exampleService Anthropic) systemEmptyLastMessages
       (7 / 10) 1024)) = None \<and>
   an_system (body (anthropicRequest (exampleService Anthropic) systemEmptyLastMessages
       (7 / 10) 1024)) \<noteq> Some (last (systemContents systemEmptyLastMessages))"
  by (simp add: systemEmptyLastMessages_def systemContents_def anthropicRequest_def
      anthropicBody_def)

section \<open>Empty completions\<close>

lemma chatOpenAI_ok:
  assumes "fo (openAIRequest svc msgs t k) = r" "ok r" "resp_json r = Some d"
  shows "chatOpenAI svc fo msgs t k =
     (if openAIContent d = [] then Inl EmptyCompletion
      else Inr \<lparr>resp_content = openAIContent d,
                resp_usage = (case oa_usage d of None \<Rightarrow> None
                  | Some u \<Rightarrow> Some \<lparr>inputTokens = orZero (prompt_tokens u),
                                   outputTokens = orZero (completion_tokens u)\<rparr>)\<rparr>)"
  using assms by (simp add: chatOpenAI_def Let_def)

lemma chatAnthropic_ok:
  assumes "fa (anthropicRequest svc msgs t k) = r" "ok r" "resp_json r = Some d"
  shows "chatAnthropic svc fa msgs t k =
     (if anthropicTextContent d = [] then Inl EmptyCompletion
      else Inr \<lparr>resp_content = anthropicTextContent d,
                resp_usage = (case an_usage d of None \<Rightarrow> None
                  | Some u \<Rightarrow> Some \<lparr>inputTokens = orZero (input_tokens u),
                                   outputTokens = orZero (output_tokens u)\<rparr>)\<rparr>)"
  using assms by (simp add: chatAnthropic_def Let_def)

text \<open>
  Claim C3, as the code has it.  On both paths a successful response whose parsed
  completion is the empty string (or is missing) makes \<open>chat\<close> fail with
  \<open>EmptyCompletion\<close>; every other completion, white space included, is returned unchanged
  as the content of the answer.
\<close>

theorem chat_empty_completion:
  "(provider (config svc) \<noteq> Anthropic \<and>
      fo (openAIRequest svc msgs (temperatureOf opts) (maxTokensOf opts)) = ro \<and>
      ok ro \<and> resp_json ro = Some d \<longrightarrow>
        (openAIContent d = [] \<longrightarrow> chat svc fo fa msgs opts = Inl EmptyCompletion) \<and>
        (openAIContent d \<noteq> [] \<longrightarrow>
           (\<exists>u. chat svc fo fa msgs opts = Inr \<lparr>resp_content = openAIContent d, resp_usage = u\<rparr>))) \<and>
   (provider (config svc) = Anthropic \<and>
      fa (anthropicRequest svc msgs (temperatureOf opts) (maxTokensOf opts)) = ra \<and>
      ok ra \<and> resp_json ra = Some da \<longrightarrow>
        (anthropicTextContent da = [] \<longrightarrow> chat svc fo fa msgs opts = Inl EmptyCompletion) \<and>
        (anthropicTextContent da \<noteq> [] \<longrightarrow>
           (\<exists>u. chat svc fo fa msgs opts =
              Inr \<lparr>resp_content = anthropicTextContent da, resp_usage = u\<rparr>)))"
proof (intro conjI impI)
  assume h: "provider (config svc) \<noteq> Anthropic \<and>
      fo (openAIRequest svc msgs (temperatureOf opts) (maxTokensOf opts)) = ro \<and>
      ok ro \<and> resp_json ro = Some d"
  then have c: "chat svc fo fa msgs opts =
      chatOpenAI svc fo msgs (temperatureOf opts) (maxTokensOf opts)"
    by (simp add: chat_def)
  note e = chatOpenAI_ok [of fo svc msgs "temperatureOf opts" "maxTokensOf opts" ro d]
  { assume "openAIContent d = []"
    with h c e show "chat svc fo fa msgs opts = Inl EmptyCompletion" by simp }
  { assume "openAIContent d \<noteq> []"
    with h c e show "\<exists>u. chat svc fo fa msgs opts =
        Inr \<lparr>resp_content = openAIContent d, resp_usage = u\<rparr>" by simp }
next
  assume h: "provider (config svc) = Anthropic \<and>
      fa (anthropicRequest svc msgs (temperatureOf opts) (maxTokensOf opts)) = ra \<and>
      ok ra \<and> resp_json ra = Some da"
  then have c: "chat svc fo fa msgs opts =
      chatAnthropic svc fa msgs (temperatureOf opts) (maxTokensOf opts)"
    by (simp add: chat_def)
  note e = chatAnthropic_ok [of fa svc msgs "temperatureOf opts" "maxTokensOf opts" ra da]
  { assume "anthropicTextContent da = []"
    with h c e show "chat svc fo fa msgs opts = Inl EmptyCompletion" by simp }
  { assume "anthropicTextContent da \<noteq> []"
    with h c e show "\<exists>u. chat svc fo fa msgs opts =
        Inr \<lparr>resp_content = anthropicTextContent da, resp_usage = u\<rparr>" by simp }
qed

text \<open>
  C3 on a response with no choice and on a response whose text block is empty: both
  paths fail with \<open>EmptyCompletion\<close>.
\<close>

theorem chat_empty_completion_witness:
  "openAIContent \<lparr>oa_choices = Some [], oa_usage = None\<rparr> = [] \<and>
   chat (exampleService OpenAI) fetchEmptyOpenAI fetchEmptyAnthropic exampleMessages noOptions =
     Inl EmptyCompletion \<and>
   chat (exampleService OpenRouter) fetchEmptyOpenAI fetchEmptyAnthropic exampleMessages noOptions =
     Inl EmptyCompletion \<and>
   chat (exampleService Anthropic) fetchEmptyOpenAI fetchEmptyAnthropic exampleMessages noOptions =
     Inl EmptyCompletion"
proof -
  have p: "provider (config (exampleService q)) = q" for q
    by (simp add: exampleService_def newLLMService_def)
  have o: "openAIContent \<lparr>oa_choices = Some [], oa_usage = None\<rparr> = []"
    by (simp add: openAIContent_def)
  have a: "anthropicTextContent
      \<lparr>an_content = Some [\<lparr>block_type = ''text'', block_text = Some []\<rparr>], an_usage = None\<rparr> = []"
    by (simp add: anthropicTextContent_def)
  have 1: "chat (exampleService OpenAI) fetchEmptyOpenAI fetchEmptyAnthropic exampleMessages
      noOptions = Inl EmptyCompletion"
    using chat_empty_completion [of "exampleService OpenAI" fetchEmptyOpenAI exampleMessages
        noOptions emptyOpenAIResponse "\<lparr>oa_choices = Some [], oa_usage = None\<rparr>"
        fetchEmptyAnthropic, THEN conjunct1] o
    by (simp add: p fetchEmptyOpenAI_def emptyOpenAIResponse_def)
  have 2: "chat (exampleService OpenRouter) fetchEmptyOpenAI fetchEmptyAnthropic exampleMessages
      noOptions = Inl EmptyCompletion"
    using chat_empty_completion [of "exampleService OpenRouter" fetchEmptyOpenAI exampleMessages
        noOptions emptyOpenAIResponse "\<lparr>oa_choices = Some [], oa_usage = None\<rparr>"
        fetchEmptyAnthropic, THEN conjunct1] o
    by (simp add: p fetchEmptyOpenAI_def emptyOpenAIResponse_def)
  have 3: "chat (exampleService Anthropic) fetchEmptyOpenAI fetchEmptyAnthropic exampleMessages
      noOptions = Inl EmptyCompletion"
    using chat_empty_completion [of "exampleService Anthropic" fetchEmptyOpenAI exampleMessages
        noOptions _ _ fetchEmptyAnthropic emptyAnthropicResponse
        "\<lparr>an_content = Some [\<lparr>block_type = ''text'', block_text = Some []\<rparr>], an_usage = None\<rparr>",
        THEN conjunct2] a
    by (simp add: p fetchEmptyAnthropic_def emptyAnthropicResponse_def)
  from o 1 2 3 show ?thesis by blast
qed

lemma trim_blank: "trim ''  \<newline>'' = []"
  by (simp add: trim_def isWhiteSpace_def)

text \<open>
  The claim as stated fails on a completion of white space only: the completion of two
  spaces and a line feed trims to the empty string, yet both paths return it as the
  content of a successful answer instead of failing with \<open>EmptyCompletion\<close>.
\<close>

theorem chat_empty_completion_counterexample:
  "trim ''  \<newline>'' = [] \<and>
   chat (exampleService OpenAI) fetchBlankOpenAI fetchBlankAnthropic exampleMessages noOptions =
     Inr \<lparr>resp_content = ''  \<newline>'', resp_usage = None\<rparr> \<and>
   chat (exampleService OpenAI) fetchBlankOpenAI fetchBlankAnthropic exampleMessages noOptions \<noteq>
     Inl EmptyCompletion \<and>
   chat (exampleService Anthropic) fetchBlankOpenAI fetchBlankAnthropic exampleMessages noOptions =
     Inr \<lparr>resp_content = ''  \<newline>'', resp_usage = None\<rparr> \<and>
   chat (exampleService Anthropic) fetchBlankOpenAI fetchBlankAnthropic exampleMessages noOptions \<noteq>
     Inl EmptyCompletion"
proof -
  have p: "provider (config (exampleService q)) = q" for q
    by (simp add: exampleService_def newLLMService_def)
  have 1: "chat (exampleService OpenAI) fetchBlankOpenAI fetchBlankAnthropic exampleMessages
      noOptions = Inr \<lparr>resp_content = ''  \<newline>'', resp_usage = None\<rparr>"
    by (simp add: chat_def p chatOpenAI_def fetchBlankOpenAI_def blankOpenAIResponse_def
        openAIContent_def)
  have 2: "chat (exampleService Anthropic) fetchBlankOpenAI fetchBlankAnthropic exampleMessages
      noOptions = Inr \<lparr>resp_content = ''  \<newline>'', resp_usage = None\<rparr>"
    by (simp add: chat_def p chatAnthropic_def fetchBlankAnthropic_def
        blankAnthropicResponse_def anthropicTextContent_def)
  from trim_blank 1 2 show ?thesis by simp
qed

section \<open>Provider selection\<close>

lemma truthy_the: "truthy k \<Longrightarrow> k = Some (the k) \<and> the k \<noteq> []"
  by (cases k) simp_all

lemma presentKey_eq:
  "presentKey env p = (if truthy (keyOf env p) then Some (the (keyOf env p)) else None)"
  by (cases "keyOf env p") (simp_all add: presentKey_def split: list.split)

lemma firstPresent_all:
  "firstPresent_spec env [Anthropic, OpenAI, OpenRouter] =
     (if truthy (ANTHROPIC_API_KEY env) then Some (Anthropic, the (ANTHROPIC_API_KEY env))
      else if truthy (OPENAI_API_KEY env) then Some (OpenAI, the (OPENAI_API_KEY env))
      else if truthy (OPENROUTER_API_KEY env) then Some (OpenRouter, the (OPENROUTER_API_KEY env))
      else None)"
  by (simp add: firstPresent_spec_def presentKey_eq)

text \<open>
  Claim C6.  \<open>createLLMService\<close> selects what the specification's policy selects: the
  preferred provider when its key is present, otherwise the first of Anthropic, OpenAI,
  OpenRouter whose key is present, and it fails with \<open>NoProviderConfigured\<close> when no key
  is present.  The service is built from the selected provider, its key and the optional
  model override, so that without an override the provider's default model is used.
\<close>

theorem createLLMService_selects:
  "createLLMService env =
     (case selectProvider_spec env of
        None \<Rightarrow> Inl NoProviderConfigured
      | Some (p, k) \<Rightarrow>
          Inr (newLLMService \<lparr>provider = p, apiKey = k, model = LLM_MODEL env, baseUrl = None\<rparr>))"
proof (cases "Option.bind (LLM_PROVIDER env) providerOfName")
  case None
  then have n: "LLM_PROVIDER env \<noteq> Some ''anthropic''" "LLM_PROVIDER env \<noteq> Some ''openai''"
    "LLM_PROVIDER env \<noteq> Some ''openrouter''"
    by (auto simp: providerOfName_def)
  from None n show ?thesis
    by (simp add: createLLMService_def selectProvider_spec_def firstPresent_all)
next
  case (Some p)
  then obtain n where n: "LLM_PROVIDER env = Some n" "providerOfName n = Some p"
    by (cases "LLM_PROVIDER env") auto
  show ?thesis
  proof (cases p)
    case OpenAI
    with n have "n = ''openai''"
      by (auto simp: providerOfName_def split: if_splits)
    with Some OpenAI n show ?thesis
      by (simp add: createLLMService_def selectProvider_spec_def firstPresent_all presentKey_eq)
  next
    case Anthropic
    with n have "n = ''anthropic''"
      by (auto simp: providerOfName_def split: if_splits)
    with Some Anthropic n show ?thesis
      by (simp add: createLLMService_def selectProvider_spec_def firstPresent_all presentKey_eq)
  next
    case OpenRouter
    with n have "n = ''openrouter''"
      by (auto simp: providerOfName_def split: if_splits)
    with Some OpenRouter n show ?thesis
      by (simp add: createLLMService_def selectProvider_spec_def firstPresent_all presentKey_eq)
  qed
qed

text \<open>
  C6 on the specification's two examples, and on an environment whose only key is the
  empty string.
\<close>

theorem createLLMService_selects_witness:
  "createLLMService onlyOpenRouterEnv =
     Inr \<lparr>config = \<lparr>provider = OpenRouter, apiKey = ''or-key'', model = None, baseUrl = None\<rparr>,
          svc_baseUrl = ''https://openrouter.ai/api/v1'', svc_model = ''openai/gpt-4o-mini''\<rparr> \<and>
   createLLMService preferOpenAIEnv =
     Inr \<lparr>config = \<lparr>provider = OpenAI, apiKey = ''oa-key'', model = None, baseUrl = None\<rparr>,
          svc_baseUrl = ''https://api.openai.com/v1'', svc_model = ''gpt-4o-mini''\<rparr> \<and>
   createLLMService noKeyEnv = Inl NoProviderConfigured"
proof -
  have 1: "selectProvider_spec onlyOpenRouterEnv = Some (OpenRouter, ''or-key'')"
    by (simp add: selectProvider_spec_def firstPresent_spec_def presentKey_def
        onlyOpenRouterEnv_def)
  have 2: "selectProvider_spec preferOpenAIEnv = Some (OpenAI, ''oa-key'')"
    by (simp add: selectProvider_spec_def providerOfName_def presentKey_def preferOpenAIEnv_def)
  have 3: "selectProvider_spec noKeyEnv = None"
    by (simp add: selectProvider_spec_def providerOfName_def firstPresent_spec_def
        presentKey_def noKeyEnv_def)
  have m: "LLM_MODEL onlyOpenRouterEnv = None" "LLM_MODEL preferOpenAIEnv = None"
    by (simp_all add: onlyOpenRouterEnv_def preferOpenAIEnv_def)
  show ?thesis
    using createLLMService_selects [of onlyOpenRouterEnv]
      createLLMService_selects [of preferOpenAIEnv] createLLMService_selects [of noKeyEnv]
    by (simp add: 1 2 3 m newLLMService_def)
qed

section \<open>The extractor\<close>

lemma validate_roles_sel:
  "roles (validateGoals parsed r) = roles r"
  "roles (validatePlaystyle parsed r) = roles r"
  "roles (validateSkillLevel parsed r) = roles r"
  "roles (validateHeroes parsed r) = roles r"
  by (simp_all add: validateGoals_def validatePlaystyle_def validateSkillLevel_def
      validateHeroes_def split: option.split Json.split list.split)

lemma validateRoles_valid:
  "roles (validateRoles parsed emptyPreferences) = Some rs \<Longrightarrow>
     set rs \<subseteq> {r. toLowerCase r \<in> set validRoles}"
  by (auto simp: validateRoles_def emptyPreferences_def split: option.splits Json.splits list.splits)

lemma validate_roles_valid:
  assumes "validate parsed = Inr prefs" "roles prefs = Some rs"
  shows "set rs \<subseteq> {r. toLowerCase r \<in> set validRoles}"
proof -
  from assms(1) have "prefs = validateGoals parsed (validatePlaystyle parsed
      (validateSkillLevel parsed (validateRoles parsed (validateHeroes parsed emptyPreferences))))"
    by (simp add: validate_def split: if_splits)
  with assms(2) have "roles (validateRoles parsed (validateHeroes parsed emptyPreferences)) = Some rs"
    by (simp add: validate_roles_sel)
  moreover have "roles (validateRoles parsed (validateHeroes parsed emptyPreferences)) =
      roles (validateRoles parsed emptyPreferences)"
    by (simp add: validateRoles_def validate_roles_sel emptyPreferences_def
        split: option.split Json.split list.split)
  ultimately show ?thesis
    using validateRoles_valid by simp
qed

lemma merged_roles_subset:
  assumes "upd_preferredRoles (updated (evolveProfile p e)) = Some merged"
  shows "\<exists>rs. roles e = Some rs \<and> set merged \<subseteq> set (preferredRoles p) \<union> set rs"
  using assms by (auto simp: evolveProfile_roles split: option.splits if_splits)

text \<open>
  Claim C8, as the code has it.  A role outside the vocabulary \<open>validRoles\<close> (compared in
  lower case) is dropped by the validation: it is never in the validated \<open>roles\<close>.  The
  evolution that follows never adds it to \<open>preferredRoles\<close>: it is in the merged list, and
  in the profile read back after the update, only if the stored profile already held it,
  since the merge keeps every stored entry.
\<close>

theorem invalid_role_dropped:
  assumes "toLowerCase r \<notin> set validRoles" and "validate parsed = Inr prefs"
  shows
    "(\<forall>rs. roles prefs = Some rs \<longrightarrow> r \<notin> set rs) \<and>
     (\<forall>merged. upd_preferredRoles (updated (evolveProfile p prefs)) = Some merged \<longrightarrow>
        r \<notin> set (preferredRoles p) \<longrightarrow> r \<notin> set merged) \<and>
     (r \<notin> set (preferredRoles p) \<longrightarrow>
        r \<notin> set (preferredRoles (updateProfile now p (updated (evolveProfile p prefs)))))"
proof (intro conjI allI impI)
  fix rs assume "roles prefs = Some rs"
  with assms validate_roles_valid [of parsed prefs rs] show "r \<notin> set rs" by auto
next
  fix merged
  assume m: "upd_preferredRoles (updated (evolveProfile p prefs)) = Some merged"
    and n: "r \<notin> set (preferredRoles p)"
  from merged_roles_subset [OF m] obtain rs where
    rs: "roles prefs = Some rs" "set merged \<subseteq> set (preferredRoles p) \<union> set rs" by blast
  with assms validate_roles_valid [of parsed prefs rs] have "r \<notin> set rs" by auto
  with rs n show "r \<notin> set merged" by auto
next
  assume n: "r \<notin> set (preferredRoles p)"
  show "r \<notin> set (preferredRoles (updateProfile now p (updated (evolveProfile p prefs))))"
  proof (cases "roles prefs")
    case None
    with n show ?thesis by (simp add: evolved_roles)
  next
    case (Some rs)
    with assms validate_roles_valid [of parsed prefs rs] have "r \<notin> set rs" by auto
    with Some n show ?thesis by (simp add: evolved_roles)
  qed
qed

lemma validate_junglerJson:
  "validate junglerJson = Inr (emptyPreferences\<lparr>roles := Some [''Carry'']\<rparr>)"
  by (simp add: validate_def junglerJson_def validateHeroes_def validateRoles_def
      validateSkillLevel_def validatePlaystyle_def validateGoals_def validRoles_def
      eval_string)

lemma jungler_invalid: "toLowerCase ''jungler'' \<notin> set validRoles"
  by (simp add: validRoles_def eval_string)

text \<open>
  C8 on the specification's example, against a profile that stores the role \<open>mid\<close>: of
  the parsed roles \<open>jungler\<close>, \<open>Carry\<close> and the number 5 only \<open>Carry\<close> is kept, the merged
  list is \<open>mid\<close>, \<open>Carry\<close>, and \<open>jungler\<close> is not in the roles of the evolved profile.
\<close>

theorem invalid_role_dropped_witness:
  "toLowerCase ''jungler'' \<notin> set validRoles \<and>
   validate junglerJson = Inr (emptyPreferences\<lparr>roles := Some [''Carry'']\<rparr>) \<and>
   ''jungler'' \<notin> set (preferredRoles midProfile) \<and>
   upd_preferredRoles (updated (evolveProfile midProfile
      (emptyPreferences\<lparr>roles := Some [''Carry'']\<rparr>))) = Some [''mid'', ''Carry''] \<and>
   ''jungler'' \<notin> set [''mid'', ''Carry''] \<and>
   ''jungler'' \<notin> set (preferredRoles (updateProfile ''2024-01-02 00:00:00'' midProfile
      (updated (evolveProfile midProfile (emptyPreferences\<lparr>roles := Some [''Carry'']\<rparr>)))))"
proof -
  have m: "upd_preferredRoles (updated (evolveProfile midProfile
      (emptyPreferences\<lparr>roles := Some [''Carry'']\<rparr>))) = Some [''mid'', ''Carry'']"
    by (simp add: evolveProfile_roles midProfile_def freshProfile_def emptyPreferences_def
        eval_string)
  have n: "''jungler'' \<notin> set (preferredRoles midProfile)"
    by (simp add: midProfile_def freshProfile_def)
  note t = invalid_role_dropped [OF jungler_invalid validate_junglerJson,
      of midProfile "''2024-01-02 00:00:00''"]
  from t m n have k: "''jungler'' \<notin> set [''mid'', ''Carry'']"
    by blast
  from t n
  have "''jungler'' \<notin> set (preferredRoles (updateProfile ''2024-01-02 00:00:00'' midProfile
      (updated (evolveProfile midProfile (emptyPreferences\<lparr>roles := Some [''Carry'']\<rparr>)))))"
    by blast
  with jungler_invalid validate_junglerJson n m k show ?thesis by blast
qed

text \<open>
  The claim as stated fails on a profile that already stores the role: \<open>jungler\<close> is
  outside the vocabulary and is dropped from the parsed roles, yet the list the merge
  produces for a profile storing \<open>jungler\<close> is \<open>jungler\<close>, \<open>Carry\<close>, which contains it.
\<close>

theorem invalid_role_dropped_counterexample:
  "toLowerCase ''jungler'' \<notin> set validRoles \<and>
   validate junglerJson = Inr (emptyPreferences\<lparr>roles := Some [''Carry'']\<rparr>) \<and>
   upd_preferredRoles (updated (evolveProfile junglerProfile
      (emptyPreferences\<lparr>roles := Some [''Carry'']\<rparr>))) = Some [''jungler'', ''Carry''] \<and>
   ''jungler'' \<in> set [''jungler'', ''Carry''] \<and>
   ''jungler'' \<in> set (preferredRoles (updateProfile ''2024-01-02 00:00:00'' junglerProfile
      (updated (evolveProfile junglerProfile (emptyPreferences\<lparr>roles := Some [''Carry'']\<rparr>)))))"
proof -
  have m: "upd_preferredRoles (updated (evolveProfile junglerProfile
      (emptyPreferences\<lparr>roles := Some [''Carry'']\<rparr>))) = Some [''jungler'', ''Carry'']"
    by (simp add: evolveProfile_roles junglerProfile_def freshProfile_def emptyPreferences_def
        eval_string)
  have u: "''jungler'' \<in> set (preferredRoles (updateProfile ''2024-01-02 00:00:00''
      junglerProfile
      (updated (evolveProfile junglerProfile (emptyPreferences\<lparr>roles := Some [''Carry'']\<rparr>)))))"
    by (simp add: evolved_roles junglerProfile_def freshProfile_def)
  from jungler_invalid validate_junglerJson m u show ?thesis by simp
qed

section \<open>Failures of the extraction\<close>

lemma hasPreferences_empty: "\<not> hasPreferences emptyPreferences"
  by (simp add: hasPreferences_def emptyPreferences_def)

lemma validate_Inl_iff: "validate parsed = Inl err \<longleftrightarrow> parsed = JNull \<and> err = TypeError"
  by (auto simp: validate_def)

text \<open>When the body of the \<open>try\<close> block throws, and what it throws.\<close>

lemma extractBody_Inl_iff:
  "extractBody parse llm message = Inl err \<longleftrightarrow>
     (\<exists>e. llm (extractionMessages message) extractionOptions = Inl e \<and> err = ChatFailed e) \<or>
     (\<exists>response. llm (extractionMessages message) extractionOptions = Inr response \<and>
        (parse (jsonStrOf (resp_content response)) = None \<and> err = SyntaxError \<or>
         parse (jsonStrOf (resp_content response)) = Some JNull \<and> err = TypeError))"
  by (auto simp: extractBody_def validate_Inl_iff split: sum.splits option.splits)

text \<open>
  Claim C7.  Whatever the body of \<open>extractPreferences\<close> throws is swallowed: when the
  gateway returns a completion and parsing it throws (\<open>parse\<close> yields \<open>None\<close>) or
  validating the parsed value throws (\<open>validate\<close> yields an error), and also when the
  gateway call itself fails, the function returns the empty record; its result is a
  record in every case, never an error; and \<open>hasPreferences\<close> is false on the empty
  record.
\<close>

theorem extractPreferences_swallows_failure:
  "(llm (extractionMessages message) extractionOptions = Inr response \<and>
      (parse (jsonStrOf (resp_content response)) = None \<or>
       (\<exists>parsed err. parse (jsonStrOf (resp_content response)) = Some parsed \<and>
          validate parsed = Inl err)) \<longrightarrow>
      extractPreferences parse llm message = emptyPreferences) \<and>
   (llm (extractionMessages message) extractionOptions = Inl e \<longrightarrow>
      extractPreferences parse llm message = emptyPreferences) \<and>
   (extractBody parse llm message = Inl err \<longrightarrow>
      extractPreferences parse llm message = emptyPreferences) \<and>
   \<not> hasPreferences emptyPreferences"
proof (intro conjI impI)
  assume "llm (extractionMessages message) extractionOptions = Inr response \<and>
      (parse (jsonStrOf (resp_content response)) = None \<or>
       (\<exists>parsed err. parse (jsonStrOf (resp_content response)) = Some parsed \<and>
          validate parsed = Inl err))"
  then show "extractPreferences parse llm message = emptyPreferences"
    by (auto simp: extractPreferences_def extractBody_def)
next
  assume "llm (extractionMessages message) extractionOptions = Inl e"
  then show "extractPreferences parse llm message = emptyPreferences"
    by (simp add: extractPreferences_def extractBody_def)
next
  assume "extractBody parse llm message = Inl err"
  then show "extractPreferences parse llm message = emptyPreferences"
    by (simp add: extractPreferences_def)
next
  show "\<not> hasPreferences emptyPreferences"
    by (rule hasPreferences_empty)
qed

lemmas eval_extract = jsonStrOf_def trim_def isWhiteSpace_def fenceMatch_def fence_def
  prefix_code

lemma jsonStrOf_fenced_null: "jsonStrOf ''```json\<newline>null\<newline>```'' = ''null''"
  by (simp add: eval_extract)

lemma jsonStrOf_prose:
  "jsonStrOf ''  I see no preferences here. '' = ''I see no preferences here.''"
  by (simp add: eval_extract)

text \<open>
  C7 on three runs: the completion is a fenced \<open>null\<close>, whose validation throws; the
  completion is prose, whose parsing throws; the gateway call fails.  Each returns the
  empty record.
\<close>

theorem extractPreferences_swallows_failure_witness:
  "validate JNull = Inl TypeError \<and>
   extractPreferences exampleParse (llmAnswering ''```json\<newline>null\<newline>```'') ''hello'' =
     emptyPreferences \<and>
   exampleParse ''I see no preferences here.'' = None \<and>
   extractPreferences exampleParse (llmAnswering ''  I see no preferences here. '') ''hello'' =
     emptyPreferences \<and>
   extractPreferences exampleParse llmFailing ''hello'' = emptyPreferences \<and>
   \<not> hasPreferences (extractPreferences exampleParse llmFailing ''hello'')"
proof -
  have v: "validate JNull = Inl TypeError"
    by (simp add: validate_def)
  have p1: "exampleParse ''null'' = Some JNull"
    by (simp add: exampleParse_def)
  have p2: "exampleParse ''I see no preferences here.'' = None"
    by (simp add: exampleParse_def)
  have 1: "extractPreferences exampleParse (llmAnswering ''```json\<newline>null\<newline>```'') ''hello'' =
      emptyPreferences"
    using extractPreferences_swallows_failure
      [of "llmAnswering ''```json\<newline>null\<newline>```''" "''hello''"
        "\<lparr>resp_content = ''```json\<newline>null\<newline>```'', resp_usage = None\<rparr>" exampleParse,
        THEN conjunct1] v p1
    by (simp add: llmAnswering_def jsonStrOf_fenced_null)
  have 2: "extractPreferences exampleParse (llmAnswering ''  I see no preferences here. '') ''hello'' =
      emptyPreferences"
    using extractPreferences_swallows_failure
      [of "llmAnswering ''  I see no preferences here. ''" "''hello''"
        "\<lparr>resp_content = ''  I see no preferences here. '', resp_usage = None\<rparr>" exampleParse,
        THEN conjunct1] p2
    by (simp add: llmAnswering_def jsonStrOf_prose)
  have 3: "extractPreferences exampleParse llmFailing ''hello'' = emptyPreferences"
    using extractPreferences_swallows_failure
      [of llmFailing "''hello''" _ exampleParse "TransportFailure 503 ''Service Unavailable''",
        THEN conjunct2, THEN conjunct1]
    by (simp add: llmFailing_def)
  have 4: "\<not> hasPreferences emptyPreferences"
    using extractPreferences_swallows_failure [of llmFailing "''hello''" _ exampleParse]
    by blast
  from v 1 p2 2 3 4 show ?thesis by simp
qed

section \<open>Duplicates\<close>

lemma validate_duplicateJson: "validate duplicateJson = Inr duplicateExtracted"
  by (simp add: validate_def duplicateJson_def duplicateExtracted_def validateHeroes_def
      validateRoles_def validateSkillLevel_def validatePlaystyle_def validateGoals_def
      validRoles_def emptyPreferences_def eval_string)

text \<open>
  Each additive block compares the extracted entries with the stored list only, so the
  stored invariant survives when the extracted list has no duplicate of its own.
\<close>

lemma distinct_append_new:
  assumes "distinct (map f xs)" "distinct (map f ys)"
  shows "distinct (map f (xs @ filter (\<lambda>y. f y \<notin> set (map f xs)) ys))"
  using assms by (auto simp: distinct_map_filter) (metis image_eqI)

lemma evolveProfile_keeps_distinct:
  assumes "distinct (preferredHeroes p)" "distinct (map toLowerCase (preferredRoles p))"
    "distinct (map toLowerCase (learningGoals p))"
    and "\<And>hs. heroes e = Some hs \<Longrightarrow> distinct hs"
    and "\<And>rs. roles e = Some rs \<Longrightarrow> distinct (map toLowerCase rs)"
    and "\<And>gs. ex_learningGoals e = Some gs \<Longrightarrow> distinct (map toLowerCase gs)"
  shows "distinct (preferredHeroes (updateProfile now p (updated (evolveProfile p e)))) \<and>
    distinct (map toLowerCase (preferredRoles (updateProfile now p (updated (evolveProfile p e))))) \<and>
    distinct (map toLowerCase (learningGoals (updateProfile now p (updated (evolveProfile p e)))))"
proof (intro conjI)
  show "distinct (preferredHeroes (updateProfile now p (updated (evolveProfile p e))))"
    using assms(1,4) distinct_append_new [of "\<lambda>x. x" "preferredHeroes p"]
    by (cases "heroes e") (simp_all add: evolved_heroes)
  show "distinct (map toLowerCase
      (preferredRoles (updateProfile now p (updated (evolveProfile p e)))))"
    using assms(2,5) distinct_append_new [of toLowerCase "preferredRoles p"]
    by (cases "roles e") (simp_all add: evolved_roles)
  show "distinct (map toLowerCase
      (learningGoals (updateProfile now p (updated (evolveProfile p e)))))"
    using assms(3,6) distinct_append_new [of toLowerCase "learningGoals p"]
    by (cases "ex_learningGoals e") (simp_all add: evolved_goals)
qed

text \<open>
  Claim C4 at a failing input.  The profile has three empty lists, so it has no
  duplicates.  The parsed output repeats a hero and repeats a role and a goal up to case;
  the validation keeps them all, and the evolution stores \<open>Axe\<close> twice and stores both
  \<open>Carry\<close> and \<open>carry\<close>, both \<open>Warding\<close> and \<open>warding\<close>, so the no-duplicates invariant is
  lost.
\<close>

theorem evolveProfile_stores_duplicates:
  "distinct (preferredHeroes freshProfile) \<and>
   distinct (map toLowerCase (preferredRoles freshProfile)) \<and>
   distinct (map toLowerCase (learningGoals freshProfile)) \<and>
   validate duplicateJson = Inr duplicateExtracted \<and>
   upd_preferredHeroes (updated (evolveProfile freshProfile duplicateExtracted)) =
     Some [''Axe'', ''Axe''] \<and>
   upd_preferredRoles (updated (evolveProfile freshProfile duplicateExtracted)) =
     Some [''Carry'', ''carry''] \<and>
   upd_learningGoals (updated (evolveProfile freshProfile duplicateExtracted)) =
     Some [''Warding'', ''warding''] \<and>
   \<not> distinct [''Axe'', ''Axe''] \<and>
   \<not> distinct (map toLowerCase [''Carry'', ''carry'']) \<and>
   \<not> distinct (map toLowerCase [''Warding'', ''warding''])"
proof -
  have h: "upd_preferredHeroes (updated (evolveProfile freshProfile duplicateExtracted)) =
     Some [''Axe'', ''Axe'']"
    by (simp add: evolveProfile_heroes freshProfile_def duplicateExtracted_def)
  have r: "upd_preferredRoles (updated (evolveProfile freshProfile duplicateExtracted)) =
     Some [''Carry'', ''carry'']"
    by (simp add: evolveProfile_roles freshProfile_def duplicateExtracted_def)
  have g: "upd_learningGoals (updated (evolveProfile freshProfile duplicateExtracted)) =
     Some [''Warding'', ''warding'']"
    by (simp add: evolveProfile_goals freshProfile_def duplicateExtracted_def)
  have d: "\<not> distinct (map toLowerCase [''Carry'', ''carry''])"
    "\<not> distinct (map toLowerCase [''Warding'', ''warding''])"
    by (simp_all add: eval_string)
  have f: "distinct (preferredHeroes freshProfile)"
    "distinct (map toLowerCase (preferredRoles freshProfile))"
    "distinct (map toLowerCase (learningGoals freshProfile))"
    by (simp_all add: freshProfile_def)
  from f validate_duplicateJson h r g d show ?thesis by simp
qed

end
